theory Spec2Isabelle
  imports Main "HOL-Library.Word" "HOL-Library.Sublist"
begin

unbundle bit_operations_syntax

section \<open>Python values\<close>

text \<open>
  A Python \<open>str\<close> is a sequence of Unicode code points. It is modelled as a list of
  natural numbers, so that a lone surrogate (which \<open>json.loads\<close> can produce and
  \<open>str.encode\<close> rejects) is a value of the model. \<open>py\<close> writes an ASCII literal.
\<close>

type_synonym pystr = "nat list"

definition py :: "string \<Rightarrow> pystr" where
  "py s = map of_char s"

text \<open>
  The dataclass declares its fields as \<open>str\<close> and \<open>Optional[list[str]]\<close>, but neither the
  generated constructor nor \<open>from_dict\<close> checks them, so a field holds whatever value it
  was given. The values modelled are those of a decoded JSON document except floats:
  \<open>None\<close>, \<open>bool\<close>, \<open>int\<close>, \<open>str\<close>, \<open>list\<close> and \<open>dict\<close> with string keys, the bindings of
  a \<open>dict\<close> in insertion order. Floating-point values are outside the model.
\<close>

datatype pyval = PNone | PBool bool | PInt int | PStr pystr | PList "pyval list"
  | PDict "(pystr \<times> pyval) list"

datatype py_error = TypeError | AttributeError | IndexError | UnicodeEncodeError

type_synonym pydict = "(pystr \<times> pyval) list"

text \<open>Truth value testing, as \<open>if x:\<close> and \<open>not x\<close> do it.\<close>

fun truthy :: "pyval \<Rightarrow> bool" where
  "truthy PNone = False"
| "truthy (PBool b) = b"
| "truthy (PInt i) = (i \<noteq> 0)"
| "truthy (PStr s) = (s \<noteq> [])"
| "truthy (PList xs) = (xs \<noteq> [])"
| "truthy (PDict kvs) = (kvs \<noteq> [])"

text \<open>
  Python's \<open>==\<close>: \<open>True == 1\<close> and \<open>False == 0\<close> hold, lists compare elementwise, and
  two dicts are equal when they have the same number of bindings and each binding of one
  has a binding of the other with the same key and an equal value, whatever the order.
  A dict holds each key once, and then the test from left to right alone decides, as in
  CPython; the test from right to left is written too, so that the comparison is
  symmetric on every list of bindings.
\<close>

function (sequential) py_eq :: "pyval \<Rightarrow> pyval \<Rightarrow> bool"
  and py_eq_list :: "pyval list \<Rightarrow> pyval list \<Rightarrow> bool"
  and item_in :: "pystr \<Rightarrow> pyval \<Rightarrow> (pystr \<times> pyval) list \<Rightarrow> bool"
  and items_in :: "(pystr \<times> pyval) list \<Rightarrow> (pystr \<times> pyval) list \<Rightarrow> bool"
  and has_item :: "(pystr \<times> pyval) list \<Rightarrow> pystr \<Rightarrow> pyval \<Rightarrow> bool"
  and has_items :: "(pystr \<times> pyval) list \<Rightarrow> (pystr \<times> pyval) list \<Rightarrow> bool" where
  "py_eq PNone PNone = True"
| "py_eq (PBool a) (PBool b) = (a = b)"
| "py_eq (PBool a) (PInt j) = ((if a then 1 else 0) = j)"
| "py_eq (PInt i) (PBool b) = (i = (if b then 1 else 0))"
| "py_eq (PInt i) (PInt j) = (i = j)"
| "py_eq (PStr s) (PStr t) = (s = t)"
| "py_eq (PList xs) (PList ys) = py_eq_list xs ys"
| "py_eq (PDict a) (PDict b) = (length a = length b \<and> items_in a b \<and> has_items a b)"
| "py_eq _ _ = False"
| "py_eq_list [] [] = True"
| "py_eq_list (x # xs) (y # ys) = (py_eq x y \<and> py_eq_list xs ys)"
| "py_eq_list _ _ = False"
| "item_in k v [] = False"
| "item_in k v ((k', v') # b) = ((k = k' \<and> py_eq v v') \<or> item_in k v b)"
| "items_in [] b = True"
| "items_in ((k, v) # a) b = (item_in k v b \<and> items_in a b)"
| "has_item [] k' v' = False"
| "has_item ((k, v) # a) k' v' = ((k = k' \<and> py_eq v v') \<or> has_item a k' v')"
| "has_items a [] = True"
| "has_items a ((k', v') # b) = (has_item a k' v' \<and> has_items a b)"
  by pat_completeness auto

termination
  by (relation "measure (\<lambda>x. case x of
        Inl (Inl (a, b)) \<Rightarrow> size a + size b
      | Inl (Inr (Inl (xs, ys))) \<Rightarrow> size_list size xs + size_list size ys
      | Inl (Inr (Inr (k, v, b))) \<Rightarrow> size v + size_list (size_prod (\<lambda>_. 0) size) b
      | Inr (Inl (a, b)) \<Rightarrow>
          size_list (size_prod (\<lambda>_. 0) size) a + size_list (size_prod (\<lambda>_. 0) size) b
      | Inr (Inr (Inl (a, k, v))) \<Rightarrow> size_list (size_prod (\<lambda>_. 0) size) a + size v
      | Inr (Inr (Inr (a, b))) \<Rightarrow>
          size_list (size_prod (\<lambda>_. 0) size) a + size_list (size_prod (\<lambda>_. 0) size) b)")
     auto

text \<open>\<open>dict.get(key, default)\<close> and \<open>key in dict\<close> on a dict kept in insertion order.\<close>

definition dict_get :: "pydict \<Rightarrow> pystr \<Rightarrow> pyval \<Rightarrow> pyval" where
  "dict_get d k dflt = (case map_of d k of None \<Rightarrow> dflt | Some v \<Rightarrow> v)"

definition dict_contains :: "pydict \<Rightarrow> pystr \<Rightarrow> bool" where
  "dict_contains d k = (map_of d k \<noteq> None)"

text \<open>Sequencing of computations that may raise: the first exception wins.\<close>

definition bind_err :: "py_error + 'a \<Rightarrow> ('a \<Rightarrow> py_error + 'b) \<Rightarrow> py_error + 'b" where
  "bind_err m f = (case m of Inl e \<Rightarrow> Inl e | Inr x \<Rightarrow> f x)"

section \<open>String operations\<close>

text \<open>\<open>sub in s\<close> on strings: \<open>sub\<close> occurs as a contiguous run of \<open>s\<close>.\<close>

fun str_contains :: "pystr \<Rightarrow> pystr \<Rightarrow> bool" where
  "str_contains sub [] = (sub = [])"
| "str_contains sub (c # cs) = (prefix sub (c # cs) \<or> str_contains sub cs)"

text \<open>
  \<open>s.split(sep)\<close> for a non-empty separator: scan from the left, cut at each
  occurrence, continue after it. \<open>acc\<close> is the segment collected so far.
\<close>

fun str_split_from :: "pystr \<Rightarrow> pystr \<Rightarrow> pystr \<Rightarrow> pystr list" where
  "str_split_from sep acc [] = [acc]"
| "str_split_from sep acc (c # cs) =
     (if sep \<noteq> [] \<and> prefix sep (c # cs)
      then acc # str_split_from sep [] (drop (length sep) (c # cs))
      else str_split_from sep (acc @ [c]) cs)"

definition str_split :: "pystr \<Rightarrow> pystr \<Rightarrow> pystr list" where
  "str_split sep s = str_split_from sep [] s"

text \<open>
  The three operations line 66 applies to \<open>old_value\<close>, on any value:
  \<open>"or" in v\<close> is a substring test on a \<open>str\<close>, a membership test on a \<open>list\<close>, a key test
  on a \<open>dict\<close>, and a \<open>TypeError\<close> on \<open>None\<close>, \<open>bool\<close> and \<open>int\<close>; \<open>v.split("or")\<close> exists on
  \<open>str\<close> only and raises \<open>AttributeError\<close> on every other value;
  \<open>xs[0]\<close> and \<open>xs[-1]\<close> raise \<open>IndexError\<close> on an empty list.
\<close>

fun py_in :: "pystr \<Rightarrow> pyval \<Rightarrow> py_error + bool" where
  "py_in sub (PStr s) = Inr (str_contains sub s)"
| "py_in sub (PList xs) = Inr (PStr sub \<in> set xs)"
| "py_in sub (PDict kvs) = Inr (sub \<in> fst ` set kvs)"
| "py_in sub _ = Inl TypeError"

fun py_split :: "pyval \<Rightarrow> pystr \<Rightarrow> py_error + pystr list" where
  "py_split (PStr s) sep = Inr (str_split sep s)"
| "py_split _ sep = Inl AttributeError"

fun index_first :: "'a list \<Rightarrow> py_error + 'a" where
  "index_first [] = Inl IndexError"
| "index_first (x # xs) = Inr x"

fun index_last :: "'a list \<Rightarrow> py_error + 'a" where
  "index_last [] = Inl IndexError"
| "index_last (x # xs) = Inr (last (x # xs))"

section \<open>UTF-8 and SHA-256\<close>

text \<open>
  \<open>content.encode()\<close> is UTF-8. A surrogate code point cannot be encoded and raises
  \<open>UnicodeEncodeError\<close>. No Python \<open>str\<close> holds a code point above \<open>0x10FFFF\<close>; the
  model refuses such a list the same way.
\<close>

type_synonym byte = "8 word"
type_synonym word32 = "32 word"

definition utf8_char :: "nat \<Rightarrow> py_error + byte list" where
  "utf8_char c =
     (if c < 0x80 then Inr [word_of_nat c]
      else if c < 0x800 then Inr [word_of_nat (0xC0 + c div 64), word_of_nat (0x80 + c mod 64)]
      else if 0xD800 \<le> c \<and> c < 0xE000 then Inl UnicodeEncodeError
      else if c < 0x10000 then
        Inr [word_of_nat (0xE0 + c div 4096), word_of_nat (0x80 + c div 64 mod 64),
             word_of_nat (0x80 + c mod 64)]
      else if c < 0x110000 then
        Inr [word_of_nat (0xF0 + c div 262144), word_of_nat (0x80 + c div 4096 mod 64),
             word_of_nat (0x80 + c div 64 mod 64), word_of_nat (0x80 + c mod 64)]
      else Inl UnicodeEncodeError)"

fun encode :: "pystr \<Rightarrow> py_error + byte list" where
  "encode [] = Inr []"
| "encode (c # cs) =
     bind_err (utf8_char c) (\<lambda>bs. bind_err (encode cs) (\<lambda>rest. Inr (bs @ rest)))"

text \<open>
  \<open>hashlib.sha256\<close> belongs to the Python standard library, not to this repository; it
  is written out here after FIPS 180-4, section 6.2, on 32-bit words.
\<close>

definition Ch :: "word32 \<Rightarrow> word32 \<Rightarrow> word32 \<Rightarrow> word32" where
  "Ch x y z = (x AND y) XOR (NOT x AND z)"

definition Maj :: "word32 \<Rightarrow> word32 \<Rightarrow> word32 \<Rightarrow> word32" where
  "Maj x y z = (x AND y) XOR (x AND z) XOR (y AND z)"

definition rotr :: "nat \<Rightarrow> word32 \<Rightarrow> word32" where
  "rotr n x = drop_bit n x OR push_bit (32 - n) x"

definition big_sigma0 :: "word32 \<Rightarrow> word32" where
  "big_sigma0 x = rotr 2 x XOR rotr 13 x XOR rotr 22 x"

definition big_sigma1 :: "word32 \<Rightarrow> word32" where
  "big_sigma1 x = rotr 6 x XOR rotr 11 x XOR rotr 25 x"

definition small_sigma0 :: "word32 \<Rightarrow> word32" where
  "small_sigma0 x = rotr 7 x XOR rotr 18 x XOR drop_bit 3 x"

definition small_sigma1 :: "word32 \<Rightarrow> word32" where
  "small_sigma1 x = rotr 17 x XOR rotr 19 x XOR drop_bit 10 x"

definition K256 :: "word32 list" where
  "K256 = [
  0x428A2F98, 0x71374491, 0xB5C0FBCF, 0xE9B5DBA5, 0x3956C25B, 0x59F111F1, 0x923F82A4, 0xAB1C5ED5,
  0xD807AA98, 0x12835B01, 0x243185BE, 0x550C7DC3, 0x72BE5D74, 0x80DEB1FE, 0x9BDC06A7, 0xC19BF174,
  0xE49B69C1, 0xEFBE4786, 0x0FC19DC6, 0x240CA1CC, 0x2DE92C6F, 0x4A7484AA, 0x5CB0A9DC, 0x76F988DA,
  0x983E5152, 0xA831C66D, 0xB00327C8, 0xBF597FC7, 0xC6E00BF3, 0xD5A79147, 0x06CA6351, 0x14292967,
  0x27B70A85, 0x2E1B2138, 0x4D2C6DFC, 0x53380D13, 0x650A7354, 0x766A0ABB, 0x81C2C92E, 0x92722C85,
  0xA2BFE8A1, 0xA81A664B, 0xC24B8B70, 0xC76C51A3, 0xD192E819, 0xD6990624, 0xF40E3585, 0x106AA070,
  0x19A4C116, 0x1E376C08, 0x2748774C, 0x34B0BCB5, 0x391C0CB3, 0x4ED8AA4A, 0x5B9CCA4F, 0x682E6FF3,
  0x748F82EE, 0x78A5636F, 0x84C87814, 0x8CC70208, 0x90BEFFFA, 0xA4506CEB, 0xBEF9A3F7, 0xC67178F2]"

type_synonym sha_state =
  "word32 \<times> word32 \<times> word32 \<times> word32 \<times> word32 \<times> word32 \<times> word32 \<times> word32"

definition H256 :: sha_state where
  "H256 = (0x6A09E667, 0xBB67AE85, 0x3C6EF372, 0xA54FF53A,
           0x510E527F, 0x9B05688C, 0x1F83D9AB, 0x5BE0CD19)"

definition be64 :: "nat \<Rightarrow> byte list" where
  "be64 n = map (\<lambda>i. word_of_nat (n div 2 ^ (8 * i))) [7, 6, 5, 4, 3, 2, 1, 0]"

definition sha_pad :: "byte list \<Rightarrow> byte list" where
  "sha_pad msg = msg @ [0x80] @ replicate ((119 - length msg mod 64) mod 64) 0
                   @ be64 (8 * length msg)"

fun blocks :: "byte list \<Rightarrow> byte list list" where
  "blocks [] = []"
| "blocks (b # bs) = take 64 (b # bs) # blocks (drop 64 (b # bs))"

fun be_words :: "byte list \<Rightarrow> word32 list" where
  "be_words (a # b # c # d # bs) =
     (push_bit 24 (ucast a) OR push_bit 16 (ucast b) OR push_bit 8 (ucast c) OR ucast d)
       # be_words bs"
| "be_words _ = []"

primrec sha_extend :: "nat \<Rightarrow> word32 list \<Rightarrow> word32 list" where
  "sha_extend 0 w = w"
| "sha_extend (Suc n) w =
     sha_extend n (w @ [small_sigma1 (w ! (length w - 2)) + w ! (length w - 7)
                     + small_sigma0 (w ! (length w - 15)) + w ! (length w - 16)])"

definition schedule :: "byte list \<Rightarrow> word32 list" where
  "schedule blk = sha_extend 48 (be_words blk)"

fun sha_round :: "word32 \<times> word32 \<Rightarrow> sha_state \<Rightarrow> sha_state" where
  "sha_round (k, w) (a, b, c, d, e, f, g, h) =
     (let t1 = h + big_sigma1 e + Ch e f g + k + w;
          t2 = big_sigma0 a + Maj a b c
      in (t1 + t2, a, b, c, d + t1, e, f, g))"

fun add_state :: "sha_state \<Rightarrow> sha_state \<Rightarrow> sha_state" where
  "add_state (a, b, c, d, e, f, g, h) (a', b', c', d', e', f', g', h') =
     (a + a', b + b', c + c', d + d', e + e', f + f', g + g', h + h')"

definition compress :: "byte list \<Rightarrow> sha_state \<Rightarrow> sha_state" where
  "compress blk H = add_state H (fold sha_round (zip K256 (schedule blk)) H)"

definition be32 :: "word32 \<Rightarrow> byte list" where
  "be32 w = [ucast (drop_bit 24 w), ucast (drop_bit 16 w), ucast (drop_bit 8 w), ucast w]"

fun state_bytes :: "sha_state \<Rightarrow> byte list" where
  "state_bytes (a, b, c, d, e, f, g, h) =
     be32 a @ be32 b @ be32 c @ be32 d @ be32 e @ be32 f @ be32 g @ be32 h"

definition sha256 :: "byte list \<Rightarrow> byte list" where
  "sha256 msg = state_bytes (fold compress (blocks (sha_pad msg)) H256)"

text \<open>\<open>hexdigest()\<close>: two lowercase hexadecimal digits for each byte of the digest.\<close>

definition hex_digit :: "nat \<Rightarrow> nat" where
  "hex_digit n = (if n < 10 then 48 + n else 87 + n)"

definition hex_byte :: "byte \<Rightarrow> pystr" where
  "hex_byte b = [hex_digit (unat b div 16), hex_digit (unat b mod 16)]"

definition hexdigest :: "byte list \<Rightarrow> pystr" where
  "hexdigest digest = concat (map hex_byte digest)"

definition is_lower_hex :: "nat \<Rightarrow> bool" where
  "is_lower_hex c = ((48 \<le> c \<and> c \<le> 57) \<or> (97 \<le> c \<and> c \<le> 102))"

section \<open>The clock\<close>

text \<open>
  \<open>datetime.now(timezone.utc)\<close> reads the clock; the reading is an input of the model.
  \<open>isoformat()\<close> prints it as \<open>YYYY-MM-DDTHH:MM:SS[.ffffff]+00:00\<close>, the fraction being
  left out when the microseconds are zero.
\<close>

record datetime =
  year :: nat
  month :: nat
  day :: nat
  hour :: nat
  minute :: nat
  second :: nat
  microsecond :: nat

fun digits :: "nat \<Rightarrow> pystr" where
  "digits n = (if n < 10 then [48 + n] else digits (n div 10) @ [48 + n mod 10])"

declare digits.simps [simp del]

definition zfill :: "nat \<Rightarrow> nat \<Rightarrow> pystr" where
  "zfill w n = replicate (w - length (digits n)) 48 @ digits n"

definition isoformat :: "datetime \<Rightarrow> pystr" where
  "isoformat t =
     zfill 4 (year t) @ py ''-'' @ zfill 2 (month t) @ py ''-'' @ zfill 2 (day t) @ py ''T''
     @ zfill 2 (hour t) @ py '':'' @ zfill 2 (minute t) @ py '':'' @ zfill 2 (second t)
     @ (if microsecond t = 0 then [] else py ''.'' @ zfill 6 (microsecond t))
     @ py ''+00:00''"

section \<open>DeprecationItem\<close>

record DeprecationItem =
  provider :: pyval
  model_id :: pyval
  model_name :: pyval
  announcement_date :: pyval
  shutdown_date :: pyval
  replacement_models :: pyval
  deprecation_context :: pyval
  url :: pyval
  content_hash :: pyval
  scraped_at :: pyval

text \<open>
  A replacement field of an f-string is \<open>format(v, "")\<close>: a \<open>str\<close> is inserted as it is.
  For a value of another class it is Python's built-in \<open>str()\<close>, which this repository
  does not define; it is the parameter \<open>fmt\<close> of the model.
\<close>

definition py_format :: "(pyval \<Rightarrow> pystr) \<Rightarrow> pyval \<Rightarrow> pystr" where
  "py_format fmt v = (case v of PStr s \<Rightarrow> s | _ \<Rightarrow> fmt v)"

text \<open>\<open>_compute_hash\<close>, line 39: \<open>hashlib.sha256(content.encode()).hexdigest()[:16]\<close>.\<close>

definition compute_hash :: "pystr \<Rightarrow> py_error + pystr" where
  "compute_hash content =
     bind_err (encode content) (\<lambda>bs. Inr (take 16 (hexdigest (sha256 bs))))"

text \<open>The f-string of line 33.\<close>

definition unique_content :: "(pyval \<Rightarrow> pystr) \<Rightarrow> DeprecationItem \<Rightarrow> pystr" where
  "unique_content fmt self =
     py_format fmt (provider self) @ py ''|'' @ py_format fmt (model_id self) @ py ''|''
     @ py_format fmt (shutdown_date self) @ py ''|'' @ py_format fmt (announcement_date self)"

text \<open>\<open>__post_init__\<close>, lines 26 to 34; \<open>now\<close> is the clock reading.\<close>

definition post_init ::
  "(pyval \<Rightarrow> pystr) \<Rightarrow> datetime \<Rightarrow> DeprecationItem \<Rightarrow> py_error + DeprecationItem" where
  "post_init fmt now self =
     (let self1 = (if \<not> truthy (scraped_at self)
                   then self\<lparr>scraped_at := PStr (isoformat now)\<rparr> else self)
      in if \<not> truthy (content_hash self1)
         then bind_err (compute_hash (unique_content fmt self1))
                (\<lambda>h. Inr (self1\<lparr>content_hash := PStr h\<rparr>))
         else Inr self1)"

text \<open>
  The constructor the dataclass generates: five required arguments, five with the
  defaults of lines 18 to 24 (\<open>None\<close> here is an argument left out), then
  \<open>__post_init__\<close>.
\<close>

definition DeprecationItem_init ::
  "(pyval \<Rightarrow> pystr) \<Rightarrow> datetime \<Rightarrow> pyval \<Rightarrow> pyval \<Rightarrow> pyval \<Rightarrow> pyval \<Rightarrow> pyval
     \<Rightarrow> pyval option \<Rightarrow> pyval option \<Rightarrow> pyval option \<Rightarrow> pyval option \<Rightarrow> pyval option
     \<Rightarrow> py_error + DeprecationItem" where
  "DeprecationItem_init fmt now prov mid mname adate sdate repl ctx u chash scraped =
     post_init fmt now
       \<lparr>provider = prov, model_id = mid, model_name = mname,
        announcement_date = adate, shutdown_date = sdate,
        replacement_models = (case repl of None \<Rightarrow> PNone | Some v \<Rightarrow> v),
        deprecation_context = (case ctx of None \<Rightarrow> PStr [] | Some v \<Rightarrow> v),
        url = (case u of None \<Rightarrow> PStr [] | Some v \<Rightarrow> v),
        content_hash = (case chash of None \<Rightarrow> PStr [] | Some v \<Rightarrow> v),
        scraped_at = (case scraped of None \<Rightarrow> PStr [] | Some v \<Rightarrow> v)\<rparr>"

text \<open>\<open>to_dict\<close>, lines 41 to 54; a dict literal keeps the order in which it is written.\<close>

definition to_dict :: "DeprecationItem \<Rightarrow> pydict" where
  "to_dict self =
     [(py ''provider'', provider self),
      (py ''model_id'', model_id self),
      (py ''model_name'', model_name self),
      (py ''announcement_date'', announcement_date self),
      (py ''shutdown_date'', shutdown_date self),
      (py ''replacement_models'', replacement_models self),
      (py ''deprecation_context'', deprecation_context self),
      (py ''url'', url self),
      (py ''content_hash'', content_hash self),
      (py ''scraped_at'', scraped_at self)]"

text \<open>
  Lines 66 to 71 of \<open>from_dict\<close>, for a truthy \<open>old_value\<close>. The condition is an
  \<open>and\<close> chain, evaluated left to right and cut short at the first false operand; the
  source calls \<open>split\<close> anew for each operand, with the same result each time.
\<close>

definition migrate_old_value :: "pyval \<Rightarrow> py_error + pyval" where
  "migrate_old_value old_value =
     bind_err (py_in (py ''or'') old_value) (\<lambda>has_or.
       if \<not> has_or then Inr (PList [old_value])
       else bind_err (py_split old_value (py ''or'')) (\<lambda>parts.
         bind_err (index_first parts) (\<lambda>p0.
           if str_contains (py '' '') p0 then Inr (PList [old_value])
           else bind_err (index_last parts) (\<lambda>pl.
             if str_contains (py '' '') pl then Inr (PList [old_value])
             else Inr (PList (map PStr (filter (\<lambda>m. m \<noteq> []) parts)))))))"

text \<open>Lines 60 to 73: the value handed to the constructor as \<open>replacement_models\<close>.\<close>

definition legacy_replacement_models :: "pydict \<Rightarrow> py_error + pyval" where
  "legacy_replacement_models data =
     (let replacement_models = dict_get data (py ''replacement_models'') PNone
      in if replacement_models = PNone \<and> dict_contains data (py ''replacement_model'')
         then (let old_value = dict_get data (py ''replacement_model'') PNone
               in if truthy old_value then migrate_old_value old_value else Inr PNone)
         else Inr replacement_models)"

text \<open>\<open>from_dict\<close>, lines 56 to 86.\<close>

definition from_dict ::
  "(pyval \<Rightarrow> pystr) \<Rightarrow> datetime \<Rightarrow> pydict \<Rightarrow> py_error + DeprecationItem" where
  "from_dict fmt now data =
     bind_err (legacy_replacement_models data) (\<lambda>replacement_models.
       DeprecationItem_init fmt now
         (dict_get data (py ''provider'') (PStr []))
         (dict_get data (py ''model_id'') (PStr []))
         (dict_get data (py ''model_name'') (PStr []))
         (dict_get data (py ''announcement_date'') (PStr []))
         (dict_get data (py ''shutdown_date'') (PStr []))
         (Some replacement_models)
         (Some (dict_get data (py ''deprecation_context'') (PStr [])))
         (Some (dict_get data (py ''url'') (PStr [])))
         (Some (dict_get data (py ''content_hash'') (PStr [])))
         (Some (dict_get data (py ''scraped_at'') (PStr []))))"

text \<open>\<open>matches_previous\<close>, lines 88 to 94.\<close>

definition matches_previous :: "DeprecationItem \<Rightarrow> DeprecationItem \<Rightarrow> bool" where
  "matches_previous self other =
     (py_eq (provider self) (provider other)
      \<and> py_eq (model_id self) (model_id other)
      \<and> py_eq (content_hash self) (content_hash other))"

section \<open>The legacy rule as the specification words it\<close>

text \<open>
  The specification asks that the text before the first \<open>or\<close> and the text after the last
  \<open>or\<close> contain no whitespace. \<open>spec_migrate\<close> follows these words for a non-empty string,
  with whitespace read as the ASCII whitespace characters (tab, line feed, vertical tab,
  form feed, carriage return, space); it is compared with \<open>migrate_old_value\<close> below.
\<close>

definition spec_is_whitespace :: "nat \<Rightarrow> bool" where
  "spec_is_whitespace c = (c \<in> {9, 10, 11, 12, 13, 32})"

definition spec_migrate :: "pystr \<Rightarrow> pyval" where
  "spec_migrate v =
     (if str_contains (py ''or'') v
         \<and> \<not> list_ex spec_is_whitespace (hd (str_split (py ''or'') v))
         \<and> \<not> list_ex spec_is_whitespace (last (str_split (py ''or'') v))
      then PList (map PStr (filter (\<lambda>m. m \<noteq> []) (str_split (py ''or'') v)))
      else PList [PStr v])"

section \<open>Inputs used in the examples\<close>

abbreviation now0 :: datetime where
  "now0 \<equiv> \<lparr>year = 2026, month = 11, day = 4, hour = 14, minute = 2, second = 33,
            microsecond = 123456\<rparr>"

abbreviation fmt0 :: "pyval \<Rightarrow> pystr" where
  "fmt0 \<equiv> (\<lambda>v. [])"

section \<open>Properties\<close>

subsection \<open>SHA-256 on known inputs\<close>

text \<open>
  The SHA-256 above is run on three one-block messages: \<open>abc\<close>, whose digest FIPS 180-4
  publishes as an example, and the two hash inputs of the examples below. Each run is
  cut into the padded block, the message schedule, the 64 rounds in groups of eight, and
  the final addition, with the intermediate values written out.
\<close>

lemma replicate_numeral_unfold:
  "replicate (numeral k) x = x # replicate (pred_numeral k) x"
  by (simp add: numeral_eq_Suc)

lemma sha_extend_numeral_unfold:
  "sha_extend (numeral k) w =
     sha_extend (pred_numeral k)
       (w @ [small_sigma1 (w ! (length w - 2)) + w ! (length w - 7)
              + small_sigma0 (w ! (length w - 15)) + w ! (length w - 16)])"
  by (simp add: numeral_eq_Suc)

subsection \<open>The message \<open>abc\<close>\<close>

lemma pad_abc:
  "sha_pad [
     97, 98, 99] =
   [
     97, 98, 99, 128, 0, 0, 0, 0, 0, 0, 0, 0, 0, 0, 0, 0,
     0, 0, 0, 0, 0, 0, 0, 0, 0, 0, 0, 0, 0, 0, 0, 0,
     0, 0, 0, 0, 0, 0, 0, 0, 0, 0, 0, 0, 0, 0, 0, 0,
     0, 0, 0, 0, 0, 0, 0, 0, 0, 0, 0, 0, 0, 0, 0, 24]"
  by (simp add: sha_pad_def be64_def replicate_numeral_unfold)

lemma schedule_abc:
  "schedule (sha_pad [
     97, 98, 99]) =
   [
     0x61626380, 0x00000000, 0x00000000, 0x00000000, 0x00000000, 0x00000000,
     0x00000000, 0x00000000, 0x00000000, 0x00000000, 0x00000000, 0x00000000,
     0x00000000, 0x00000000, 0x00000000, 0x00000018, 0x61626380, 0x000F0000,
     0x7DA86405, 0x600003C6, 0x3E9D7B78, 0x0183FC00, 0x12DCBFDB, 0xE2E2C38E,
     0xC8215C1A, 0xB73679A2, 0xE5BC3909, 0x32663C5B, 0x9D209D67, 0xEC8726CB,
     0x702138A4, 0xD3B7973B, 0x93F5997F, 0x3B68BA73, 0xAFF4FFC1, 0xF10A5C62,
     0x0A8B3996, 0x72AF830A, 0x9409E33E, 0x24641522, 0x9F47BF94, 0xF0A64F5A,
     0x3E246A79, 0x27333BA3, 0x0C4763F2, 0x840ABF27, 0x7A290D5D, 0x065C43DA,
     0xFB3E89CB, 0xCC7617DB, 0xB9E66C34, 0xA9993667, 0x84BADEDD, 0xC21462BC,
     0x1487472C, 0xB20F7A99, 0xEF57B9CD, 0xEBE6B238, 0x9FE3095E, 0x78BC8D4B,
     0xA43FCF15, 0x668B2FF8, 0xEEABA2CC, 0x12B1EDEB]"
  by (simp add: schedule_def pad_abc sha_extend_numeral_unfold small_sigma0_def
        small_sigma1_def rotr_def)

lemma rounds_abc_0:
  "fold sha_round [
     (0x428A2F98, 0x61626380), (0x71374491, 0x00000000), (0xB5C0FBCF, 0x00000000),
     (0xE9B5DBA5, 0x00000000), (0x3956C25B, 0x00000000), (0x59F111F1, 0x00000000),
     (0x923F82A4, 0x00000000), (0xAB1C5ED5, 0x00000000)]
     (0x6A09E667, 0xBB67AE85, 0x3C6EF372, 0xA54FF53A, 0x510E527F, 0x9B05688C, 0x1F83D9AB, 0x5BE0CD19)
   = (0x85A07B5F, 0xE5030380, 0x2B4209F5, 0x04409A6A, 0x0C657A79, 0x9B27A401, 0x714260AD, 0x43ADA245)"
  by (simp add: big_sigma0_def big_sigma1_def rotr_def Ch_def Maj_def)

lemma rounds_abc_1:
  "fold sha_round [
     (0xD807AA98, 0x00000000), (0x12835B01, 0x00000000), (0x243185BE, 0x00000000),
     (0x550C7DC3, 0x00000000), (0x72BE5D74, 0x00000000), (0x80DEB1FE, 0x00000000),
     (0x9BDC06A7, 0x00000000), (0xC19BF174, 0x00000018)]
     (0x85A07B5F, 0xE5030380, 0x2B4209F5, 0x04409A6A, 0x0C657A79, 0x9B27A401, 0x714260AD, 0x43ADA245)
   = (0xB0FA238E, 0xC0645FDE, 0xD932EB16, 0x87912990, 0x07590DCD, 0x0B92F20C, 0x745A48DE, 0x1E578218)"
  by (simp add: big_sigma0_def big_sigma1_def rotr_def Ch_def Maj_def)

lemma rounds_abc_2:
  "fold sha_round [
     (0xE49B69C1, 0x61626380), (0xEFBE4786, 0x000F0000), (0x0FC19DC6, 0x7DA86405),
     (0x240CA1CC, 0x600003C6), (0x2DE92C6F, 0x3E9D7B78), (0x4A7484AA, 0x0183FC00),
     (0x5CB0A9DC, 0x12DCBFDB), (0x76F988DA, 0xE2E2C38E)]
     (0xB0FA238E, 0xC0645FDE, 0xD932EB16, 0x87912990, 0x07590DCD, 0x0B92F20C, 0x745A48DE, 0x1E578218)
   = (0xC5D53D8D, 0xA7A3623F, 0xC2606D6D, 0x9DC68B63, 0xAA47C347, 0x49F5114A, 0xE1257970, 0x8ADA8930)"
  by (simp add: big_sigma0_def big_sigma1_def rotr_def Ch_def Maj_def)

lemma rounds_abc_3:
  "fold sha_round [
     (0x983E5152, 0xC8215C1A), (0xA831C66D, 0xB73679A2), (0xB00327C8, 0xE5BC3909),
     (0xBF597FC7, 0x32663C5B), (0xC6E00BF3, 0x9D209D67), (0xD5A79147, 0xEC8726CB),
     (0x06CA6351, 0x702138A4), (0x14292967, 0xD3B7973B)]
     (0xC5D53D8D, 0xA7A3623F, 0xC2606D6D, 0x9DC68B63, 0xAA47C347, 0x49F5114A, 0xE1257970, 0x8ADA8930)
   = (0x73B33BF5, 0xEA992A22, 0xA0060B30, 0x363482C9, 0xBA591112, 0x0109AB3A, 0xADE79437, 0x6112A3B7)"
  by (simp add: big_sigma0_def big_sigma1_def rotr_def Ch_def Maj_def)

lemma rounds_abc_4:
  "fold sha_round [
     (0x27B70A85, 0x93F5997F), (0x2E1B2138, 0x3B68BA73), (0x4D2C6DFC, 0xAFF4FFC1),
     (0x53380D13, 0xF10A5C62), (0x650A7354, 0x0A8B3996), (0x766A0ABB, 0x72AF830A),
     (0x81C2C92E, 0x9409E33E), (0x92722C85, 0x24641522)]
     (0x73B33BF5, 0xEA992A22, 0xA0060B30, 0x363482C9, 0xBA591112, 0x0109AB3A, 0xADE79437, 0x6112A3B7)
   = (0x79EA687A, 0x6DC57A8A, 0x34DF1604, 0x41A65CB1, 0x1EFBC0A0, 0xF0781BC8, 0xA507A53D, 0x0772A26B)"
  by (simp add: big_sigma0_def big_sigma1_def rotr_def Ch_def Maj_def)

lemma rounds_abc_5:
  "fold sha_round [
     (0xA2BFE8A1, 0x9F47BF94), (0xA81A664B, 0xF0A64F5A), (0xC24B8B70, 0x3E246A79),
     (0xC76C51A3, 0x27333BA3), (0xD192E819, 0x0C4763F2), (0xD6990624, 0x840ABF27),
     (0xF40E3585, 0x7A290D5D), (0x106AA070, 0x065C43DA)]
     (0x79EA687A, 0x6DC57A8A, 0x34DF1604, 0x41A65CB1, 0x1EFBC0A0, 0xF0781BC8, 0xA507A53D, 0x0772A26B)
   = (0x4172328D, 0xA14C14B0, 0x72AB4B91, 0x26628815, 0xFECF0BC6, 0xD57B94A9, 0xB7755DA1, 0xA80F11F0)"
  by (simp add: big_sigma0_def big_sigma1_def rotr_def Ch_def Maj_def)

lemma rounds_abc_6:
  "fold sha_round [
     (0x19A4C116, 0xFB3E89CB), (0x1E376C08, 0xCC7617DB), (0x2748774C, 0xB9E66C34),
     (0x34B0BCB5, 0xA9993667), (0x391C0CB3, 0x84BADEDD), (0x4ED8AA4A, 0xC21462BC),
     (0x5B9CCA4F, 0x1487472C), (0x682E6FF3, 0xB20F7A99)]
     (0x4172328D, 0xA14C14B0, 0x72AB4B91, 0x26628815, 0xFECF0BC6, 0xD57B94A9, 0xB7755DA1, 0xA80F11F0)
   = (0x38CC9913, 0x3EC45CDB, 0xF5702FDB, 0x101FD28F, 0x54CB266B, 0xE50E1B4F, 0x9F4787C3, 0x529E7D00)"
  by (simp add: big_sigma0_def big_sigma1_def rotr_def Ch_def Maj_def)

lemma rounds_abc_7:
  "fold sha_round [
     (0x748F82EE, 0xEF57B9CD), (0x78A5636F, 0xEBE6B238), (0x84C87814, 0x9FE3095E),
     (0x8CC70208, 0x78BC8D4B), (0x90BEFFFA, 0xA43FCF15), (0xA4506CEB, 0x668B2FF8),
     (0xBEF9A3F7, 0xEEABA2CC), (0xC67178F2, 0x12B1EDEB)]
     (0x38CC9913, 0x3EC45CDB, 0xF5702FDB, 0x101FD28F, 0x54CB266B, 0xE50E1B4F, 0x9F4787C3, 0x529E7D00)
   = (0x506E3058, 0xD39A2165, 0x04D24D6C, 0xB85E2CE9, 0x5EF50F24, 0xFB121210, 0x948D25B6, 0x961F4894)"
  by (simp add: big_sigma0_def big_sigma1_def rotr_def Ch_def Maj_def)

lemma zip_abc:
  "zip K256 [
     0x61626380, 0x00000000, 0x00000000, 0x00000000, 0x00000000, 0x00000000,
     0x00000000, 0x00000000, 0x00000000, 0x00000000, 0x00000000, 0x00000000,
     0x00000000, 0x00000000, 0x00000000, 0x00000018, 0x61626380, 0x000F0000,
     0x7DA86405, 0x600003C6, 0x3E9D7B78, 0x0183FC00, 0x12DCBFDB, 0xE2E2C38E,
     0xC8215C1A, 0xB73679A2, 0xE5BC3909, 0x32663C5B, 0x9D209D67, 0xEC8726CB,
     0x702138A4, 0xD3B7973B, 0x93F5997F, 0x3B68BA73, 0xAFF4FFC1, 0xF10A5C62,
     0x0A8B3996, 0x72AF830A, 0x9409E33E, 0x24641522, 0x9F47BF94, 0xF0A64F5A,
     0x3E246A79, 0x27333BA3, 0x0C4763F2, 0x840ABF27, 0x7A290D5D, 0x065C43DA,
     0xFB3E89CB, 0xCC7617DB, 0xB9E66C34, 0xA9993667, 0x84BADEDD, 0xC21462BC,
     0x1487472C, 0xB20F7A99, 0xEF57B9CD, 0xEBE6B238, 0x9FE3095E, 0x78BC8D4B,
     0xA43FCF15, 0x668B2FF8, 0xEEABA2CC, 0x12B1EDEB] =
   [
     (0x428A2F98, 0x61626380), (0x71374491, 0x00000000), (0xB5C0FBCF, 0x00000000),
     (0xE9B5DBA5, 0x00000000), (0x3956C25B, 0x00000000), (0x59F111F1, 0x00000000),
     (0x923F82A4, 0x00000000), (0xAB1C5ED5, 0x00000000)]
   @ [
     (0xD807AA98, 0x00000000), (0x12835B01, 0x00000000), (0x243185BE, 0x00000000),
     (0x550C7DC3, 0x00000000), (0x72BE5D74, 0x00000000), (0x80DEB1FE, 0x00000000),
     (0x9BDC06A7, 0x00000000), (0xC19BF174, 0x00000018)]
   @ [
     (0xE49B69C1, 0x61626380), (0xEFBE4786, 0x000F0000), (0x0FC19DC6, 0x7DA86405),
     (0x240CA1CC, 0x600003C6), (0x2DE92C6F, 0x3E9D7B78), (0x4A7484AA, 0x0183FC00),
     (0x5CB0A9DC, 0x12DCBFDB), (0x76F988DA, 0xE2E2C38E)]
   @ [
     (0x983E5152, 0xC8215C1A), (0xA831C66D, 0xB73679A2), (0xB00327C8, 0xE5BC3909),
     (0xBF597FC7, 0x32663C5B), (0xC6E00BF3, 0x9D209D67), (0xD5A79147, 0xEC8726CB),
     (0x06CA6351, 0x702138A4), (0x14292967, 0xD3B7973B)]
   @ [
     (0x27B70A85, 0x93F5997F), (0x2E1B2138, 0x3B68BA73), (0x4D2C6DFC, 0xAFF4FFC1),
     (0x53380D13, 0xF10A5C62), (0x650A7354, 0x0A8B3996), (0x766A0ABB, 0x72AF830A),
     (0x81C2C92E, 0x9409E33E), (0x92722C85, 0x24641522)]
   @ [
     (0xA2BFE8A1, 0x9F47BF94), (0xA81A664B, 0xF0A64F5A), (0xC24B8B70, 0x3E246A79),
     (0xC76C51A3, 0x27333BA3), (0xD192E819, 0x0C4763F2), (0xD6990624, 0x840ABF27),
     (0xF40E3585, 0x7A290D5D), (0x106AA070, 0x065C43DA)]
   @ [
     (0x19A4C116, 0xFB3E89CB), (0x1E376C08, 0xCC7617DB), (0x2748774C, 0xB9E66C34),
     (0x34B0BCB5, 0xA9993667), (0x391C0CB3, 0x84BADEDD), (0x4ED8AA4A, 0xC21462BC),
     (0x5B9CCA4F, 0x1487472C), (0x682E6FF3, 0xB20F7A99)]
   @ [
     (0x748F82EE, 0xEF57B9CD), (0x78A5636F, 0xEBE6B238), (0x84C87814, 0x9FE3095E),
     (0x8CC70208, 0x78BC8D4B), (0x90BEFFFA, 0xA43FCF15), (0xA4506CEB, 0x668B2FF8),
     (0xBEF9A3F7, 0xEEABA2CC), (0xC67178F2, 0x12B1EDEB)]"
  by (simp add: K256_def)

lemma rounds_abc:
  "fold sha_round (zip K256 [
     0x61626380, 0x00000000, 0x00000000, 0x00000000, 0x00000000, 0x00000000,
     0x00000000, 0x00000000, 0x00000000, 0x00000000, 0x00000000, 0x00000000,
     0x00000000, 0x00000000, 0x00000000, 0x00000018, 0x61626380, 0x000F0000,
     0x7DA86405, 0x600003C6, 0x3E9D7B78, 0x0183FC00, 0x12DCBFDB, 0xE2E2C38E,
     0xC8215C1A, 0xB73679A2, 0xE5BC3909, 0x32663C5B, 0x9D209D67, 0xEC8726CB,
     0x702138A4, 0xD3B7973B, 0x93F5997F, 0x3B68BA73, 0xAFF4FFC1, 0xF10A5C62,
     0x0A8B3996, 0x72AF830A, 0x9409E33E, 0x24641522, 0x9F47BF94, 0xF0A64F5A,
     0x3E246A79, 0x27333BA3, 0x0C4763F2, 0x840ABF27, 0x7A290D5D, 0x065C43DA,
     0xFB3E89CB, 0xCC7617DB, 0xB9E66C34, 0xA9993667, 0x84BADEDD, 0xC21462BC,
     0x1487472C, 0xB20F7A99, 0xEF57B9CD, 0xEBE6B238, 0x9FE3095E, 0x78BC8D4B,
     0xA43FCF15, 0x668B2FF8, 0xEEABA2CC, 0x12B1EDEB]) H256
   = (0x506E3058, 0xD39A2165, 0x04D24D6C, 0xB85E2CE9, 0x5EF50F24, 0xFB121210, 0x948D25B6, 0x961F4894)"
  by (simp only: zip_abc fold_append comp_apply H256_def
        rounds_abc_0 rounds_abc_1 rounds_abc_2 rounds_abc_3
        rounds_abc_4 rounds_abc_5 rounds_abc_6 rounds_abc_7)

lemma compress_abc:
  "compress (sha_pad [
     97, 98, 99]) H256
   = (0xBA7816BF, 0x8F01CFEA, 0x414140DE, 0x5DAE2223, 0xB00361A3, 0x96177A9C, 0xB410FF61, 0xF20015AD)"
  by (simp add: compress_def schedule_abc rounds_abc) (simp add: H256_def)

lemma sha256_abc:
  "sha256 [
     97, 98, 99] =
   [
     186, 120, 22, 191, 143, 1, 207, 234, 65, 65, 64, 222, 93, 174, 34, 35,
     176, 3, 97, 163, 150, 23, 122, 156, 180, 16, 255, 97, 242, 0, 21, 173]"
  by (simp add: sha256_def pad_abc compress_abc [unfolded pad_abc] be32_def)

lemma hexdigest_abc:
  "hexdigest (sha256 [
     97, 98, 99])
   = py ''ba7816bf8f01cfea414140de5dae2223b00361a396177a9cb410ff61f20015ad''"
  by (simp add: sha256_abc hexdigest_def hex_byte_def hex_digit_def py_def)

subsection \<open>The message \<open>OpenAI|gpt-4-32k-0613|2025-01-01|2024-01-01\<close>\<close>

lemma pad_openai:
  "sha_pad [
     79, 112, 101, 110, 65, 73, 124, 103, 112, 116, 45, 52, 45, 51, 50, 107,
     45, 48, 54, 49, 51, 124, 50, 48, 50, 53, 45, 48, 49, 45, 48, 49,
     124, 50, 48, 50, 52, 45, 48, 49, 45, 48, 49] =
   [
     79, 112, 101, 110, 65, 73, 124, 103, 112, 116, 45, 52, 45, 51, 50, 107,
     45, 48, 54, 49, 51, 124, 50, 48, 50, 53, 45, 48, 49, 45, 48, 49,
     124, 50, 48, 50, 52, 45, 48, 49, 45, 48, 49, 128, 0, 0, 0, 0,
     0, 0, 0, 0, 0, 0, 0, 0, 0, 0, 0, 0, 0, 0, 1, 88]"
  by (simp add: sha_pad_def be64_def replicate_numeral_unfold)

lemma schedule_openai:
  "schedule (sha_pad [
     79, 112, 101, 110, 65, 73, 124, 103, 112, 116, 45, 52, 45, 51, 50, 107,
     45, 48, 54, 49, 51, 124, 50, 48, 50, 53, 45, 48, 49, 45, 48, 49,
     124, 50, 48, 50, 52, 45, 48, 49, 45, 48, 49]) =
   [
     0x4F70656E, 0x41497C67, 0x70742D34, 0x2D33326B, 0x2D303631, 0x337C3230,
     0x32352D30, 0x312D3031, 0x7C323032, 0x342D3031, 0x2D303180, 0x00000000,
     0x00000000, 0x00000000, 0x00000000, 0x00000158, 0x1D5002C5, 0xDCA41FC8,
     0x9118719B, 0x23CDBD12, 0xCE90A5E1, 0xCA0E9C91, 0xA1005968, 0xD3D85041,
     0xA969061D, 0xF0FE346E, 0xF4E52A6A, 0xAB173FCE, 0xFA53BA35, 0x19349E8E,
     0x2E9126F7, 0x0F1B7119, 0x53DD0AF5, 0xE19D857A, 0xAFDB4A6B, 0x83830936,
     0x520A555B, 0xB17558DA, 0x9DFADAB0, 0x9F08478D, 0x10153665, 0x4DDA0F6D,
     0xFE29C628, 0xDD9DBDA4, 0xC06F7A50, 0xC2B3D887, 0x0FA6ED6F, 0x58F5AD33,
     0xD57EDDC0, 0x532F79E0, 0x0220FF8A, 0xC17EF635, 0x6A6DE544, 0x2B30D713,
     0x5E3D2AA1, 0x6BA42ABD, 0xE453625D, 0x1FC25566, 0xDA66D280, 0x0F3CE119,
     0x80BA2D3B, 0x724DC007, 0xD5493FAE, 0xC1DDE70B]"
  by (simp add: schedule_def pad_openai sha_extend_numeral_unfold small_sigma0_def
        small_sigma1_def rotr_def)

lemma rounds_openai_0:
  "fold sha_round [
     (0x428A2F98, 0x4F70656E), (0x71374491, 0x41497C67), (0xB5C0FBCF, 0x70742D34),
     (0xE9B5DBA5, 0x2D33326B), (0x3956C25B, 0x2D303631), (0x59F111F1, 0x337C3230),
     (0x923F82A4, 0x32352D30), (0xAB1C5ED5, 0x312D3031)]
     (0x6A09E667, 0xBB67AE85, 0x3C6EF372, 0xA54FF53A, 0x510E527F, 0x9B05688C, 0x1F83D9AB, 0x5BE0CD19)
   = (0xC5C5468A, 0x635E7E39, 0x705FBFFC, 0x7AFE5FF2, 0x8E588D32, 0x3278C4F6, 0xB6FE73EE, 0x13C78E63)"
  by (simp add: big_sigma0_def big_sigma1_def rotr_def Ch_def Maj_def)

lemma rounds_openai_1:
  "fold sha_round [
     (0xD807AA98, 0x7C323032), (0x12835B01, 0x342D3031), (0x243185BE, 0x2D303180),
     (0x550C7DC3, 0x00000000), (0x72BE5D74, 0x00000000), (0x80DEB1FE, 0x00000000),
     (0x9BDC06A7, 0x00000000), (0xC19BF174, 0x00000158)]
     (0xC5C5468A, 0x635E7E39, 0x705FBFFC, 0x7AFE5FF2, 0x8E588D32, 0x3278C4F6, 0xB6FE73EE, 0x13C78E63)
   = (0x462D27E0, 0x993C6AF5, 0x934C8A46, 0xAB33E384, 0x9294D2F6, 0x83F505E3, 0xC62D6CEF, 0x61D0326C)"
  by (simp add: big_sigma0_def big_sigma1_def rotr_def Ch_def Maj_def)

lemma rounds_openai_2:
  "fold sha_round [
     (0xE49B69C1, 0x1D5002C5), (0xEFBE4786, 0xDCA41FC8), (0x0FC19DC6, 0x9118719B),
     (0x240CA1CC, 0x23CDBD12), (0x2DE92C6F, 0xCE90A5E1), (0x4A7484AA, 0xCA0E9C91),
     (0x5CB0A9DC, 0xA1005968), (0x76F988DA, 0xD3D85041)]
     (0x462D27E0, 0x993C6AF5, 0x934C8A46, 0xAB33E384, 0x9294D2F6, 0x83F505E3, 0xC62D6CEF, 0x61D0326C)
   = (0x5A8A8F09, 0xFC78AD3D, 0xAD6EEA64, 0x27BF14B2, 0x404D1AD5, 0xC56EE8B3, 0xD3F987AF, 0xF415B856)"
  by (simp add: big_sigma0_def big_sigma1_def rotr_def Ch_def Maj_def)

lemma rounds_openai_3:
  "fold sha_round [
     (0x983E5152, 0xA969061D), (0xA831C66D, 0xF0FE346E), (0xB00327C8, 0xF4E52A6A),
     (0xBF597FC7, 0xAB173FCE), (0xC6E00BF3, 0xFA53BA35), (0xD5A79147, 0x19349E8E),
     (0x06CA6351, 0x2E9126F7), (0x14292967, 0x0F1B7119)]
     (0x5A8A8F09, 0xFC78AD3D, 0xAD6EEA64, 0x27BF14B2, 0x404D1AD5, 0xC56EE8B3, 0xD3F987AF, 0xF415B856)
   = (0x7D66FF76, 0xFA1C15AB, 0x73143CA5, 0xE56CECB7, 0xB1374E2C, 0x499A6341, 0xC0E9DF00, 0xBDDD1779)"
  by (simp add: big_sigma0_def big_sigma1_def rotr_def Ch_def Maj_def)

lemma rounds_openai_4:
  "fold sha_round [
     (0x27B70A85, 0x53DD0AF5), (0x2E1B2138, 0xE19D857A), (0x4D2C6DFC, 0xAFDB4A6B),
     (0x53380D13, 0x83830936), (0x650A7354, 0x520A555B), (0x766A0ABB, 0xB17558DA),
     (0x81C2C92E, 0x9DFADAB0), (0x92722C85, 0x9F08478D)]
     (0x7D66FF76, 0xFA1C15AB, 0x73143CA5, 0xE56CECB7, 0xB1374E2C, 0x499A6341, 0xC0E9DF00, 0xBDDD1779)
   = (0xAF2AF69B, 0xB812BB02, 0x4D7EC91B, 0x0228C049, 0x383A992C, 0x8411C0F2, 0x16912FF3, 0xF7F03F1B)"
  by (simp add: big_sigma0_def big_sigma1_def rotr_def Ch_def Maj_def)

lemma rounds_openai_5:
  "fold sha_round [
     (0xA2BFE8A1, 0x10153665), (0xA81A664B, 0x4DDA0F6D), (0xC24B8B70, 0xFE29C628),
     (0xC76C51A3, 0xDD9DBDA4), (0xD192E819, 0xC06F7A50), (0xD6990624, 0xC2B3D887),
     (0xF40E3585, 0x0FA6ED6F), (0x106AA070, 0x58F5AD33)]
     (0xAF2AF69B, 0xB812BB02, 0x4D7EC91B, 0x0228C049, 0x383A992C, 0x8411C0F2, 0x16912FF3, 0xF7F03F1B)
   = (0x9A902085, 0x09EAC7CC, 0xE0875759, 0xEE51673E, 0xEADC4D47, 0x9DEB8953, 0xA59523AD, 0x02763376)"
  by (simp add: big_sigma0_def big_sigma1_def rotr_def Ch_def Maj_def)

lemma rounds_openai_6:
  "fold sha_round [
     (0x19A4C116, 0xD57EDDC0), (0x1E376C08, 0x532F79E0), (0x2748774C, 0x0220FF8A),
     (0x34B0BCB5, 0xC17EF635), (0x391C0CB3, 0x6A6DE544), (0x4ED8AA4A, 0x2B30D713),
     (0x5B9CCA4F, 0x5E3D2AA1), (0x682E6FF3, 0x6BA42ABD)]
     (0x9A902085, 0x09EAC7CC, 0xE0875759, 0xEE51673E, 0xEADC4D47, 0x9DEB8953, 0xA59523AD, 0x02763376)
   = (0xA9804F2B, 0x55E8B8E0, 0xD2666D75, 0x5261C084, 0xB35D9B9B, 0xA9CBFADC, 0xBA43596A, 0x0CD562FF)"
  by (simp add: big_sigma0_def big_sigma1_def rotr_def Ch_def Maj_def)

lemma rounds_openai_7:
  "fold sha_round [
     (0x748F82EE, 0xE453625D), (0x78A5636F, 0x1FC25566), (0x84C87814, 0xDA66D280),
     (0x8CC70208, 0x0F3CE119), (0x90BEFFFA, 0x80BA2D3B), (0xA4506CEB, 0x724DC007),
     (0xBEF9A3F7, 0xD5493FAE), (0xC67178F2, 0xC1DDE70B)]
     (0xA9804F2B, 0x55E8B8E0, 0xD2666D75, 0x5261C084, 0xB35D9B9B, 0xA9CBFADC, 0xBA43596A, 0x0CD562FF)
   = (0x060E576F, 0x7D24A82F, 0x21C7C20E, 0xA32787EF, 0xC5B33709, 0xB9E578BE, 0x1096411F, 0xD6A8BB37)"
  by (simp add: big_sigma0_def big_sigma1_def rotr_def Ch_def Maj_def)

lemma zip_openai:
  "zip K256 [
     0x4F70656E, 0x41497C67, 0x70742D34, 0x2D33326B, 0x2D303631, 0x337C3230,
     0x32352D30, 0x312D3031, 0x7C323032, 0x342D3031, 0x2D303180, 0x00000000,
     0x00000000, 0x00000000, 0x00000000, 0x00000158, 0x1D5002C5, 0xDCA41FC8,
     0x9118719B, 0x23CDBD12, 0xCE90A5E1, 0xCA0E9C91, 0xA1005968, 0xD3D85041,
     0xA969061D, 0xF0FE346E, 0xF4E52A6A, 0xAB173FCE, 0xFA53BA35, 0x19349E8E,
     0x2E9126F7, 0x0F1B7119, 0x53DD0AF5, 0xE19D857A, 0xAFDB4A6B, 0x83830936,
     0x520A555B, 0xB17558DA, 0x9DFADAB0, 0x9F08478D, 0x10153665, 0x4DDA0F6D,
     0xFE29C628, 0xDD9DBDA4, 0xC06F7A50, 0xC2B3D887, 0x0FA6ED6F, 0x58F5AD33,
     0xD57EDDC0, 0x532F79E0, 0x0220FF8A, 0xC17EF635, 0x6A6DE544, 0x2B30D713,
     0x5E3D2AA1, 0x6BA42ABD, 0xE453625D, 0x1FC25566, 0xDA66D280, 0x0F3CE119,
     0x80BA2D3B, 0x724DC007, 0xD5493FAE, 0xC1DDE70B] =
   [
     (0x428A2F98, 0x4F70656E), (0x71374491, 0x41497C67), (0xB5C0FBCF, 0x70742D34),
     (0xE9B5DBA5, 0x2D33326B), (0x3956C25B, 0x2D303631), (0x59F111F1, 0x337C3230),
     (0x923F82A4, 0x32352D30), (0xAB1C5ED5, 0x312D3031)]
   @ [
     (0xD807AA98, 0x7C323032), (0x12835B01, 0x342D3031), (0x243185BE, 0x2D303180),
     (0x550C7DC3, 0x00000000), (0x72BE5D74, 0x00000000), (0x80DEB1FE, 0x00000000),
     (0x9BDC06A7, 0x00000000), (0xC19BF174, 0x00000158)]
   @ [
     (0xE49B69C1, 0x1D5002C5), (0xEFBE4786, 0xDCA41FC8), (0x0FC19DC6, 0x9118719B),
     (0x240CA1CC, 0x23CDBD12), (0x2DE92C6F, 0xCE90A5E1), (0x4A7484AA, 0xCA0E9C91),
     (0x5CB0A9DC, 0xA1005968), (0x76F988DA, 0xD3D85041)]
   @ [
     (0x983E5152, 0xA969061D), (0xA831C66D, 0xF0FE346E), (0xB00327C8, 0xF4E52A6A),
     (0xBF597FC7, 0xAB173FCE), (0xC6E00BF3, 0xFA53BA35), (0xD5A79147, 0x19349E8E),
     (0x06CA6351, 0x2E9126F7), (0x14292967, 0x0F1B7119)]
   @ [
     (0x27B70A85, 0x53DD0AF5), (0x2E1B2138, 0xE19D857A), (0x4D2C6DFC, 0xAFDB4A6B),
     (0x53380D13, 0x83830936), (0x650A7354, 0x520A555B), (0x766A0ABB, 0xB17558DA),
     (0x81C2C92E, 0x9DFADAB0), (0x92722C85, 0x9F08478D)]
   @ [
     (0xA2BFE8A1, 0x10153665), (0xA81A664B, 0x4DDA0F6D), (0xC24B8B70, 0xFE29C628),
     (0xC76C51A3, 0xDD9DBDA4), (0xD192E819, 0xC06F7A50), (0xD6990624, 0xC2B3D887),
     (0xF40E3585, 0x0FA6ED6F), (0x106AA070, 0x58F5AD33)]
   @ [
     (0x19A4C116, 0xD57EDDC0), (0x1E376C08, 0x532F79E0), (0x2748774C, 0x0220FF8A),
     (0x34B0BCB5, 0xC17EF635), (0x391C0CB3, 0x6A6DE544), (0x4ED8AA4A, 0x2B30D713),
     (0x5B9CCA4F, 0x5E3D2AA1), (0x682E6FF3, 0x6BA42ABD)]
   @ [
     (0x748F82EE, 0xE453625D), (0x78A5636F, 0x1FC25566), (0x84C87814, 0xDA66D280),
     (0x8CC70208, 0x0F3CE119), (0x90BEFFFA, 0x80BA2D3B), (0xA4506CEB, 0x724DC007),
     (0xBEF9A3F7, 0xD5493FAE), (0xC67178F2, 0xC1DDE70B)]"
  by (simp add: K256_def)

lemma rounds_openai:
  "fold sha_round (zip K256 [
     0x4F70656E, 0x41497C67, 0x70742D34, 0x2D33326B, 0x2D303631, 0x337C3230,
     0x32352D30, 0x312D3031, 0x7C323032, 0x342D3031, 0x2D303180, 0x00000000,
     0x00000000, 0x00000000, 0x00000000, 0x00000158, 0x1D5002C5, 0xDCA41FC8,
     0x9118719B, 0x23CDBD12, 0xCE90A5E1, 0xCA0E9C91, 0xA1005968, 0xD3D85041,
     0xA969061D, 0xF0FE346E, 0xF4E52A6A, 0xAB173FCE, 0xFA53BA35, 0x19349E8E,
     0x2E9126F7, 0x0F1B7119, 0x53DD0AF5, 0xE19D857A, 0xAFDB4A6B, 0x83830936,
     0x520A555B, 0xB17558DA, 0x9DFADAB0, 0x9F08478D, 0x10153665, 0x4DDA0F6D,
     0xFE29C628, 0xDD9DBDA4, 0xC06F7A50, 0xC2B3D887, 0x0FA6ED6F, 0x58F5AD33,
     0xD57EDDC0, 0x532F79E0, 0x0220FF8A, 0xC17EF635, 0x6A6DE544, 0x2B30D713,
     0x5E3D2AA1, 0x6BA42ABD, 0xE453625D, 0x1FC25566, 0xDA66D280, 0x0F3CE119,
     0x80BA2D3B, 0x724DC007, 0xD5493FAE, 0xC1DDE70B]) H256
   = (0x060E576F, 0x7D24A82F, 0x21C7C20E, 0xA32787EF, 0xC5B33709, 0xB9E578BE, 0x1096411F, 0xD6A8BB37)"
  by (simp only: zip_openai fold_append comp_apply H256_def
        rounds_openai_0 rounds_openai_1 rounds_openai_2 rounds_openai_3
        rounds_openai_4 rounds_openai_5 rounds_openai_6 rounds_openai_7)

lemma compress_openai:
  "compress (sha_pad [
     79, 112, 101, 110, 65, 73, 124, 103, 112, 116, 45, 52, 45, 51, 50, 107,
     45, 48, 54, 49, 51, 124, 50, 48, 50, 53, 45, 48, 49, 45, 48, 49,
     124, 50, 48, 50, 52, 45, 48, 49, 45, 48, 49]) H256
   = (0x70183DD6, 0x388C56B4, 0x5E36B580, 0x48777D29, 0x16C18988, 0x54EAE14A, 0x301A1ACA, 0x32898850)"
  by (simp add: compress_def schedule_openai rounds_openai) (simp add: H256_def)

lemma sha256_openai:
  "sha256 [
     79, 112, 101, 110, 65, 73, 124, 103, 112, 116, 45, 52, 45, 51, 50, 107,
     45, 48, 54, 49, 51, 124, 50, 48, 50, 53, 45, 48, 49, 45, 48, 49,
     124, 50, 48, 50, 52, 45, 48, 49, 45, 48, 49] =
   [
     112, 24, 61, 214, 56, 140, 86, 180, 94, 54, 181, 128, 72, 119, 125, 41,
     22, 193, 137, 136, 84, 234, 225, 74, 48, 26, 26, 202, 50, 137, 136, 80]"
  by (simp add: sha256_def pad_openai compress_openai [unfolded pad_openai] be32_def)

lemma hexdigest_openai:
  "hexdigest (sha256 [
     79, 112, 101, 110, 65, 73, 124, 103, 112, 116, 45, 52, 45, 51, 50, 107,
     45, 48, 54, 49, 51, 124, 50, 48, 50, 53, 45, 48, 49, 45, 48, 49,
     124, 50, 48, 50, 52, 45, 48, 49, 45, 48, 49])
   = py ''70183dd6388c56b45e36b58048777d2916c1898854eae14a301a1aca32898850''"
  by (simp add: sha256_openai hexdigest_def hex_byte_def hex_digit_def py_def)

subsection \<open>The message \<open>|||\<close>\<close>

lemma pad_bars:
  "sha_pad [
     124, 124, 124] =
   [
     124, 124, 124, 128, 0, 0, 0, 0, 0, 0, 0, 0, 0, 0, 0, 0,
     0, 0, 0, 0, 0, 0, 0, 0, 0, 0, 0, 0, 0, 0, 0, 0,
     0, 0, 0, 0, 0, 0, 0, 0, 0, 0, 0, 0, 0, 0, 0, 0,
     0, 0, 0, 0, 0, 0, 0, 0, 0, 0, 0, 0, 0, 0, 0, 24]"
  by (simp add: sha_pad_def be64_def replicate_numeral_unfold)

lemma schedule_bars:
  "schedule (sha_pad [
     124, 124, 124]) =
   [
     0x7C7C7C80, 0x00000000, 0x00000000, 0x00000000, 0x00000000, 0x00000000,
     0x00000000, 0x00000000, 0x00000000, 0x00000000, 0x00000000, 0x00000000,
     0x00000000, 0x00000000, 0x00000000, 0x00000018, 0x7C7C7C80, 0x000F0000,
     0xB1CF2EAE, 0x600003C6, 0x72AEFD15, 0x0183FC00, 0xA134BCD5, 0xFDFCDC8E,
     0xC9E72993, 0xA7B90D24, 0xD1C9E7CB, 0x19CE267D, 0xD0ACDCA4, 0x792C192C,
     0x23F5B605, 0x69EC8AD6, 0x52025090, 0x26F642AF, 0xAE1D917F, 0xB5AE8992,
     0x65CA3402, 0x4BA1B073, 0x9D2131D3, 0x32F02AFE, 0xCEC3DC0A, 0x5A6B5D13,
     0x8DC51E9B, 0xA973AD34, 0x9AA91890, 0x1D1BFDCC, 0x89BEA77E, 0x78C98CE4,
     0xFE199551, 0x3B6C44F2, 0xE188A6A7, 0x80B36F86, 0x4EA54830, 0xA85E9796,
     0x137CB041, 0xC564A659, 0xD31A017B, 0x64D05190, 0xE6509C2F, 0x8F4057D3,
     0x059D9AEF, 0x97C42038, 0x72200FA9, 0xB98DB477]"
  by (simp add: schedule_def pad_bars sha_extend_numeral_unfold small_sigma0_def
        small_sigma1_def rotr_def)

lemma rounds_bars_0:
  "fold sha_round [
     (0x428A2F98, 0x7C7C7C80), (0x71374491, 0x00000000), (0xB5C0FBCF, 0x00000000),
     (0xE9B5DBA5, 0x00000000), (0x3956C25B, 0x00000000), (0x59F111F1, 0x00000000),
     (0x923F82A4, 0x00000000), (0xAB1C5ED5, 0x00000000)]
     (0x6A09E667, 0xBB67AE85, 0x3C6EF372, 0xA54FF53A, 0x510E527F, 0x9B05688C, 0x1F83D9AB, 0x5BE0CD19)
   = (0x87CA5696, 0x5284077E, 0xDBDBAF97, 0xC2FD3FE5, 0x3ACD8C70, 0x49533609, 0x78D7973C, 0xB8026F4A)"
  by (simp add: big_sigma0_def big_sigma1_def rotr_def Ch_def Maj_def)

lemma rounds_bars_1:
  "fold sha_round [
     (0xD807AA98, 0x00000000), (0x12835B01, 0x00000000), (0x243185BE, 0x00000000),
     (0x550C7DC3, 0x00000000), (0x72BE5D74, 0x00000000), (0x80DEB1FE, 0x00000000),
     (0x9BDC06A7, 0x00000000), (0xC19BF174, 0x00000018)]
     (0x87CA5696, 0x5284077E, 0xDBDBAF97, 0xC2FD3FE5, 0x3ACD8C70, 0x49533609, 0x78D7973C, 0xB8026F4A)
   = (0x5E290DE4, 0x89AA095C, 0xF0C54952, 0xF37508A8, 0x1C586F4A, 0x0708FA19, 0x77F5DE8B, 0xB0C87E28)"
  by (simp add: big_sigma0_def big_sigma1_def rotr_def Ch_def Maj_def)

lemma rounds_bars_2:
  "fold sha_round [
     (0xE49B69C1, 0x7C7C7C80), (0xEFBE4786, 0x000F0000), (0x0FC19DC6, 0xB1CF2EAE),
     (0x240CA1CC, 0x600003C6), (0x2DE92C6F, 0x72AEFD15), (0x4A7484AA, 0x0183FC00),
     (0x5CB0A9DC, 0xA134BCD5), (0x76F988DA, 0xFDFCDC8E)]
     (0x5E290DE4, 0x89AA095C, 0xF0C54952, 0xF37508A8, 0x1C586F4A, 0x0708FA19, 0x77F5DE8B, 0xB0C87E28)
   = (0x4235E5D5, 0x1E91B3B7, 0x6AF1B29F, 0x2830197C, 0x260E3383, 0x417CBB1B, 0x6293288A, 0x882B4E15)"
  by (simp add: big_sigma0_def big_sigma1_def rotr_def Ch_def Maj_def)

lemma rounds_bars_3:
  "fold sha_round [
     (0x983E5152, 0xC9E72993), (0xA831C66D, 0xA7B90D24), (0xB00327C8, 0xD1C9E7CB),
     (0xBF597FC7, 0x19CE267D), (0xC6E00BF3, 0xD0ACDCA4), (0xD5A79147, 0x792C192C),
     (0x06CA6351, 0x23F5B605), (0x14292967, 0x69EC8AD6)]
     (0x4235E5D5, 0x1E91B3B7, 0x6AF1B29F, 0x2830197C, 0x260E3383, 0x417CBB1B, 0x6293288A, 0x882B4E15)
   = (0xC0A82C84, 0x7A1D9E30, 0xAEBFF497, 0x688DA620, 0x292C686B, 0x86399FD9, 0xEEE591FF, 0xB0C55434)"
  by (simp add: big_sigma0_def big_sigma1_def rotr_def Ch_def Maj_def)

lemma rounds_bars_4:
  "fold sha_round [
     (0x27B70A85, 0x52025090), (0x2E1B2138, 0x26F642AF), (0x4D2C6DFC, 0xAE1D917F),
     (0x53380D13, 0xB5AE8992), (0x650A7354, 0x65CA3402), (0x766A0ABB, 0x4BA1B073),
     (0x81C2C92E, 0x9D2131D3), (0x92722C85, 0x32F02AFE)]
     (0xC0A82C84, 0x7A1D9E30, 0xAEBFF497, 0x688DA620, 0x292C686B, 0x86399FD9, 0xEEE591FF, 0xB0C55434)
   = (0x63E84D0C, 0x77F3BE1B, 0x0AC55CCC, 0x3A516816, 0x486675B9, 0x75E29A79, 0x2B95107D, 0xF042A8F4)"
  by (simp add: big_sigma0_def big_sigma1_def rotr_def Ch_def Maj_def)

lemma rounds_bars_5:
  "fold sha_round [
     (0xA2BFE8A1, 0xCEC3DC0A), (0xA81A664B, 0x5A6B5D13), (0xC24B8B70, 0x8DC51E9B),
     (0xC76C51A3, 0xA973AD34), (0xD192E819, 0x9AA91890), (0xD6990624, 0x1D1BFDCC),
     (0xF40E3585, 0x89BEA77E), (0x106AA070, 0x78C98CE4)]
     (0x63E84D0C, 0x77F3BE1B, 0x0AC55CCC, 0x3A516816, 0x486675B9, 0x75E29A79, 0x2B95107D, 0xF042A8F4)
   = (0x96DEAC2B, 0x8A18A141, 0xA0F0F3A3, 0x762720BD, 0x2CCC0E6F, 0x7D6A619E, 0xE0CE33FF, 0x54A8007D)"
  by (simp add: big_sigma0_def big_sigma1_def rotr_def Ch_def Maj_def)

lemma rounds_bars_6:
  "fold sha_round [
     (0x19A4C116, 0xFE199551), (0x1E376C08, 0x3B6C44F2), (0x2748774C, 0xE188A6A7),
     (0x34B0BCB5, 0x80B36F86), (0x391C0CB3, 0x4EA54830), (0x4ED8AA4A, 0xA85E9796),
     (0x5B9CCA4F, 0x137CB041), (0x682E6FF3, 0xC564A659)]
     (0x96DEAC2B, 0x8A18A141, 0xA0F0F3A3, 0x762720BD, 0x2CCC0E6F, 0x7D6A619E, 0xE0CE33FF, 0x54A8007D)
   = (0x6D3823A2, 0x4A83FE15, 0x47F5F5AC, 0x12AF5F9B, 0xCE728DE7, 0xA582E8F5, 0x06ABBF0E, 0x2C09E077)"
  by (simp add: big_sigma0_def big_sigma1_def rotr_def Ch_def Maj_def)

lemma rounds_bars_7:
  "fold sha_round [
     (0x748F82EE, 0xD31A017B), (0x78A5636F, 0x64D05190), (0x84C87814, 0xE6509C2F),
     (0x8CC70208, 0x8F4057D3), (0x90BEFFFA, 0x059D9AEF), (0xA4506CEB, 0x97C42038),
     (0xBEF9A3F7, 0x72200FA9), (0xC67178F2, 0xB98DB477)]
     (0x6D3823A2, 0x4A83FE15, 0x47F5F5AC, 0x12AF5F9B, 0xCE728DE7, 0xA582E8F5, 0x06ABBF0E, 0x2C09E077)
   = (0x54520038, 0x9A816C6D, 0x21E5F950, 0x6FFD5869, 0x08A828BC, 0x8CDCF6D0, 0xA13025A9, 0x8F9412DA)"
  by (simp add: big_sigma0_def big_sigma1_def rotr_def Ch_def Maj_def)

lemma zip_bars:
  "zip K256 [
     0x7C7C7C80, 0x00000000, 0x00000000, 0x00000000, 0x00000000, 0x00000000,
     0x00000000, 0x00000000, 0x00000000, 0x00000000, 0x00000000, 0x00000000,
     0x00000000, 0x00000000, 0x00000000, 0x00000018, 0x7C7C7C80, 0x000F0000,
     0xB1CF2EAE, 0x600003C6, 0x72AEFD15, 0x0183FC00, 0xA134BCD5, 0xFDFCDC8E,
     0xC9E72993, 0xA7B90D24, 0xD1C9E7CB, 0x19CE267D, 0xD0ACDCA4, 0x792C192C,
     0x23F5B605, 0x69EC8AD6, 0x52025090, 0x26F642AF, 0xAE1D917F, 0xB5AE8992,
     0x65CA3402, 0x4BA1B073, 0x9D2131D3, 0x32F02AFE, 0xCEC3DC0A, 0x5A6B5D13,
     0x8DC51E9B, 0xA973AD34, 0x9AA91890, 0x1D1BFDCC, 0x89BEA77E, 0x78C98CE4,
     0xFE199551, 0x3B6C44F2, 0xE188A6A7, 0x80B36F86, 0x4EA54830, 0xA85E9796,
     0x137CB041, 0xC564A659, 0xD31A017B, 0x64D05190, 0xE6509C2F, 0x8F4057D3,
     0x059D9AEF, 0x97C42038, 0x72200FA9, 0xB98DB477] =
   [
     (0x428A2F98, 0x7C7C7C80), (0x71374491, 0x00000000), (0xB5C0FBCF, 0x00000000),
     (0xE9B5DBA5, 0x00000000), (0x3956C25B, 0x00000000), (0x59F111F1, 0x00000000),
     (0x923F82A4, 0x00000000), (0xAB1C5ED5, 0x00000000)]
   @ [
     (0xD807AA98, 0x00000000), (0x12835B01, 0x00000000), (0x243185BE, 0x00000000),
     (0x550C7DC3, 0x00000000), (0x72BE5D74, 0x00000000), (0x80DEB1FE, 0x00000000),
     (0x9BDC06A7, 0x00000000), (0xC19BF174, 0x00000018)]
   @ [
     (0xE49B69C1, 0x7C7C7C80), (0xEFBE4786, 0x000F0000), (0x0FC19DC6, 0xB1CF2EAE),
     (0x240CA1CC, 0x600003C6), (0x2DE92C6F, 0x72AEFD15), (0x4A7484AA, 0x0183FC00),
     (0x5CB0A9DC, 0xA134BCD5), (0x76F988DA, 0xFDFCDC8E)]
   @ [
     (0x983E5152, 0xC9E72993), (0xA831C66D, 0xA7B90D24), (0xB00327C8, 0xD1C9E7CB),
     (0xBF597FC7, 0x19CE267D), (0xC6E00BF3, 0xD0ACDCA4), (0xD5A79147, 0x792C192C),
     (0x06CA6351, 0x23F5B605), (0x14292967, 0x69EC8AD6)]
   @ [
     (0x27B70A85, 0x52025090), (0x2E1B2138, 0x26F642AF), (0x4D2C6DFC, 0xAE1D917F),
     (0x53380D13, 0xB5AE8992), (0x650A7354, 0x65CA3402), (0x766A0ABB, 0x4BA1B073),
     (0x81C2C92E, 0x9D2131D3), (0x92722C85, 0x32F02AFE)]
   @ [
     (0xA2BFE8A1, 0xCEC3DC0A), (0xA81A664B, 0x5A6B5D13), (0xC24B8B70, 0x8DC51E9B),
     (0xC76C51A3, 0xA973AD34), (0xD192E819, 0x9AA91890), (0xD6990624, 0x1D1BFDCC),
     (0xF40E3585, 0x89BEA77E), (0x106AA070, 0x78C98CE4)]
   @ [
     (0x19A4C116, 0xFE199551), (0x1E376C08, 0x3B6C44F2), (0x2748774C, 0xE188A6A7),
     (0x34B0BCB5, 0x80B36F86), (0x391C0CB3, 0x4EA54830), (0x4ED8AA4A, 0xA85E9796),
     (0x5B9CCA4F, 0x137CB041), (0x682E6FF3, 0xC564A659)]
   @ [
     (0x748F82EE, 0xD31A017B), (0x78A5636F, 0x64D05190), (0x84C87814, 0xE6509C2F),
     (0x8CC70208, 0x8F4057D3), (0x90BEFFFA, 0x059D9AEF), (0xA4506CEB, 0x97C42038),
     (0xBEF9A3F7, 0x72200FA9), (0xC67178F2, 0xB98DB477)]"
  by (simp add: K256_def)

lemma rounds_bars:
  "fold sha_round (zip K256 [
     0x7C7C7C80, 0x00000000, 0x00000000, 0x00000000, 0x00000000, 0x00000000,
     0x00000000, 0x00000000, 0x00000000, 0x00000000, 0x00000000, 0x00000000,
     0x00000000, 0x00000000, 0x00000000, 0x00000018, 0x7C7C7C80, 0x000F0000,
     0xB1CF2EAE, 0x600003C6, 0x72AEFD15, 0x0183FC00, 0xA134BCD5, 0xFDFCDC8E,
     0xC9E72993, 0xA7B90D24, 0xD1C9E7CB, 0x19CE267D, 0xD0ACDCA4, 0x792C192C,
     0x23F5B605, 0x69EC8AD6, 0x52025090, 0x26F642AF, 0xAE1D917F, 0xB5AE8992,
     0x65CA3402, 0x4BA1B073, 0x9D2131D3, 0x32F02AFE, 0xCEC3DC0A, 0x5A6B5D13,
     0x8DC51E9B, 0xA973AD34, 0x9AA91890, 0x1D1BFDCC, 0x89BEA77E, 0x78C98CE4,
     0xFE199551, 0x3B6C44F2, 0xE188A6A7, 0x80B36F86, 0x4EA54830, 0xA85E9796,
     0x137CB041, 0xC564A659, 0xD31A017B, 0x64D05190, 0xE6509C2F, 0x8F4057D3,
     0x059D9AEF, 0x97C42038, 0x72200FA9, 0xB98DB477]) H256
   = (0x54520038, 0x9A816C6D, 0x21E5F950, 0x6FFD5869, 0x08A828BC, 0x8CDCF6D0, 0xA13025A9, 0x8F9412DA)"
  by (simp only: zip_bars fold_append comp_apply H256_def
        rounds_bars_0 rounds_bars_1 rounds_bars_2 rounds_bars_3
        rounds_bars_4 rounds_bars_5 rounds_bars_6 rounds_bars_7)

lemma compress_bars:
  "compress (sha_pad [
     124, 124, 124]) H256
   = (0xBE5BE69F, 0x55E91AF2, 0x5E54ECC2, 0x154D4DA3, 0x59B67B3B, 0x27E25F5C, 0xC0B3FF54, 0xEB74DFF3)"
  by (simp add: compress_def schedule_bars rounds_bars) (simp add: H256_def)

lemma sha256_bars:
  "sha256 [
     124, 124, 124] =
   [
     190, 91, 230, 159, 85, 233, 26, 242, 94, 84, 236, 194, 21, 77, 77, 163,
     89, 182, 123, 59, 39, 226, 95, 92, 192, 179, 255, 84, 235, 116, 223, 243]"
  by (simp add: sha256_def pad_bars compress_bars [unfolded pad_bars] be32_def)

lemma hexdigest_bars:
  "hexdigest (sha256 [
     124, 124, 124])
   = py ''be5be69f55e91af25e54ecc2154d4da359b67b3b27e25f5cc0b3ff54eb74dff3''"
  by (simp add: sha256_bars hexdigest_def hex_byte_def hex_digit_def py_def)

subsection \<open>Facts about the operations\<close>

lemma bind_err_Inl [simp]: "bind_err (Inl e) f = Inl e"
  by (simp add: bind_err_def)

lemma bind_err_Inr [simp]: "bind_err (Inr x) f = f x"
  by (simp add: bind_err_def)

lemma bind_err_eq_Inr: "bind_err m f = Inr y \<longleftrightarrow> (\<exists>x. m = Inr x \<and> f x = Inr y)"
  by (cases m) simp_all

lemma length_be32 [simp]: "length (be32 w) = 4"
  by (simp add: be32_def)

lemma length_state_bytes: "length (state_bytes s) = 32"
  by (cases s rule: state_bytes.cases) simp

lemma length_sha256: "length (sha256 msg) = 32"
  by (simp add: sha256_def length_state_bytes)

lemma length_hexdigest: "length (hexdigest d) = 2 * length d"
  by (induction d) (simp_all add: hexdigest_def hex_byte_def)

lemma hex_digit_lower: "n < 16 \<Longrightarrow> is_lower_hex (hex_digit n)"
  by (auto simp: is_lower_hex_def hex_digit_def)

lemma unat_byte_div16: "unat (b :: byte) div 16 < 16"
proof -
  have "unat b < 256" using unsigned_less [of b, where ?'a = nat] by simp
  then show ?thesis by simp
qed

lemma hex_byte_lower: "c \<in> set (hex_byte b) \<Longrightarrow> is_lower_hex c"
  by (auto simp: hex_byte_def intro!: hex_digit_lower unat_byte_div16)

lemma hexdigest_lower: "c \<in> set (hexdigest d) \<Longrightarrow> is_lower_hex c"
  by (auto simp: hexdigest_def dest: hex_byte_lower)

lemma compute_hash_shape:
  assumes "compute_hash content = Inr h"
  shows "length h = 16 \<and> (\<forall>c \<in> set h. is_lower_hex c)"
proof -
  from assms obtain bs where h: "h = take 16 (hexdigest (sha256 bs))"
    by (auto simp: compute_hash_def bind_err_eq_Inr)
  have "length h = 16" by (simp add: h length_hexdigest length_sha256)
  moreover have "\<forall>c \<in> set h. is_lower_hex c"
    using hexdigest_lower by (auto simp: h dest: in_set_takeD)
  ultimately show ?thesis by simp
qed

lemma digits_nonempty: "digits n \<noteq> []"
  by (subst digits.simps) simp

lemma isoformat_nonempty: "isoformat t \<noteq> []"
  by (simp add: isoformat_def zfill_def digits_nonempty)

lemma item_in_iff: "item_in k v b \<longleftrightarrow> (\<exists>v'. (k, v') \<in> set b \<and> py_eq v v')"
  by (induction b) auto

lemma items_in_iff: "items_in a b \<longleftrightarrow> (\<forall>k v. (k, v) \<in> set a \<longrightarrow> item_in k v b)"
  by (induction a) auto

lemma has_item_iff: "has_item a k' v' \<longleftrightarrow> (\<exists>v. (k', v) \<in> set a \<and> py_eq v v')"
  by (induction a) auto

lemma has_items_iff: "has_items a b \<longleftrightarrow> (\<forall>k' v'. (k', v') \<in> set b \<longrightarrow> has_item a k' v')"
  by (induction b) auto

lemma py_eq_list_refl: "(\<And>x. x \<in> set xs \<Longrightarrow> py_eq x x) \<Longrightarrow> py_eq_list xs xs"
  by (induction xs) simp_all

lemma py_eq_refl: "py_eq v v"
proof (induction v)
  case (PDict a)
  have elem: "py_eq v v" if "(k, v) \<in> set a" for k v
    using PDict.IH [of "(k, v)" v] that by simp
  have "items_in a a"
    unfolding items_in_iff item_in_iff using elem by blast
  moreover have "has_items a a"
    unfolding has_items_iff has_item_iff using elem by blast
  ultimately show ?case by simp
qed (simp_all add: py_eq_list_refl)

lemma py_eq_list_sym:
  "(\<And>x y. x \<in> set xs \<Longrightarrow> py_eq x y = py_eq y x) \<Longrightarrow> py_eq_list xs ys = py_eq_list ys xs"
proof (induction xs arbitrary: ys)
  case Nil
  then show ?case by (cases ys) simp_all
next
  case (Cons x xs)
  show ?case
  proof (cases ys)
    case Nil
    then show ?thesis by simp
  next
    case (Cons y ys')
    have hd: "py_eq x y = py_eq y x"
      using Cons.prems [of x y] by simp
    have tl: "py_eq_list xs ys' = py_eq_list ys' xs"
      using Cons.prems by (intro Cons.IH) (meson list.set_intros(2))
    show ?thesis
      unfolding Cons by (simp only: py_eq.simps py_eq_list.simps hd tl)
  qed
qed

lemma py_eq_sym: "py_eq a b = py_eq b a"
proof (induction a arbitrary: b)
  case (PList xs)
  show ?case
  proof (cases b)
    case (PList ys)
    have "py_eq_list xs ys = py_eq_list ys xs"
      by (rule py_eq_list_sym) (rule PList.IH)
    then show ?thesis unfolding PList by simp
  qed simp_all
next
  case (PDict a)
  show ?case
  proof (cases b)
    case other: (PDict c)
    have elem: "py_eq v w = py_eq w v" if "(k, v) \<in> set a" for k v w
      using PDict.IH [of "(k, v)" v w] that by simp
    have one: "items_in a c = has_items c a"
      unfolding items_in_iff item_in_iff has_items_iff has_item_iff
      using elem by blast
    have two: "has_items a c = items_in c a"
      unfolding items_in_iff item_in_iff has_items_iff has_item_iff
      using elem by blast
    show ?thesis
      unfolding other by (auto simp: one two)
  qed simp_all
qed (case_tac b; auto)+

lemma str_split_from_nonempty: "str_split_from sep acc s \<noteq> []"
  by (induction sep acc s rule: str_split_from.induct) simp_all

subsection \<open>Construction and round trip\<close>

lemma compute_hash_encode:
  "encode content = Inr bs \<Longrightarrow> compute_hash content = Inr (take 16 (hexdigest (sha256 bs)))"
  by (simp add: compute_hash_def)

lemma compute_hash_Inr_iff:
  "(\<exists>h. compute_hash content = Inr h) \<longleftrightarrow> (\<exists>bs. encode content = Inr bs)"
  by (cases "encode content") (simp_all add: compute_hash_def)

lemma unique_content_scraped [simp]:
  "unique_content fmt (self\<lparr>scraped_at := v\<rparr>) = unique_content fmt self"
  by (simp add: unique_content_def)

lemma post_init_truthy:
  assumes "post_init fmt now self = Inr r"
  shows "truthy (scraped_at r) \<and> truthy (content_hash r)"
proof -
  let ?s1 = "if \<not> truthy (scraped_at self) then self\<lparr>scraped_at := PStr (isoformat now)\<rparr> else self"
  have s1: "truthy (scraped_at ?s1)"
    by (simp add: isoformat_nonempty)
  show ?thesis
  proof (cases "truthy (content_hash ?s1)")
    case True
    with assms have "r = ?s1" by (simp add: post_init_def Let_def split: if_splits)
    with True s1 show ?thesis by simp
  next
    case False
    with assms obtain h where h: "compute_hash (unique_content fmt ?s1) = Inr h"
      and r: "r = ?s1\<lparr>content_hash := PStr h\<rparr>"
      by (auto simp: post_init_def Let_def bind_err_eq_Inr split: if_splits)
    from compute_hash_shape [OF h] have "h \<noteq> []" by auto
    with s1 r show ?thesis by (simp split: if_splits)
  qed
qed

lemma post_init_fixed:
  "truthy (scraped_at self) \<Longrightarrow> truthy (content_hash self) \<Longrightarrow> post_init fmt now self = Inr self"
  by (simp add: post_init_def)

lemma legacy_to_dict: "legacy_replacement_models (to_dict r) = Inr (replacement_models r)"
  by (simp add: legacy_replacement_models_def to_dict_def dict_get_def dict_contains_def py_def)

lemma from_dict_to_dict: "from_dict fmt now (to_dict r) = post_init fmt now r"
proof -
  have fields: "dict_get (to_dict r) (py ''provider'') (PStr []) = provider r"
    "dict_get (to_dict r) (py ''model_id'') (PStr []) = model_id r"
    "dict_get (to_dict r) (py ''model_name'') (PStr []) = model_name r"
    "dict_get (to_dict r) (py ''announcement_date'') (PStr []) = announcement_date r"
    "dict_get (to_dict r) (py ''shutdown_date'') (PStr []) = shutdown_date r"
    "dict_get (to_dict r) (py ''deprecation_context'') (PStr []) = deprecation_context r"
    "dict_get (to_dict r) (py ''url'') (PStr []) = url r"
    "dict_get (to_dict r) (py ''content_hash'') (PStr []) = content_hash r"
    "dict_get (to_dict r) (py ''scraped_at'') (PStr []) = scraped_at r"
    by (simp_all add: to_dict_def dict_get_def py_def)
  have eta: "\<lparr>provider = provider r, model_id = model_id r, model_name = model_name r,
      announcement_date = announcement_date r, shutdown_date = shutdown_date r,
      replacement_models = replacement_models r,
      deprecation_context = deprecation_context r, url = url r,
      content_hash = content_hash r, scraped_at = scraped_at r\<rparr> = r"
    by (cases r) simp
  show ?thesis
    by (simp add: from_dict_def legacy_to_dict DeprecationItem_init_def fields eta)
qed

text \<open>
  C2. A record that the constructor returned survives \<open>to_dict\<close> followed by
  \<open>from_dict\<close> unchanged in all ten fields, whatever the clock reads at the second
  construction: \<open>scraped_at\<close> and \<open>content_hash\<close> are already set and are kept, and a
  \<open>None\<close> in \<open>replacement_models\<close> stays \<open>None\<close>.
\<close>

theorem C2_roundtrip:
  assumes "DeprecationItem_init fmt now prov mid mname adate sdate repl ctx u chash scraped = Inr r"
  shows "from_dict fmt' now' (to_dict r) = Inr r"
proof -
  from assms have "truthy (scraped_at r) \<and> truthy (content_hash r)"
    unfolding DeprecationItem_init_def by (rule post_init_truthy)
  then show ?thesis
    by (simp add: from_dict_to_dict post_init_fixed)
qed

theorem C2_roundtrip_witness:
  "DeprecationItem_init fmt0 now0 (PStr (py ''OpenAI'')) (PStr (py ''gpt-4-32k-0613''))
     (PStr (py ''GPT-4 32k'')) (PStr (py ''2024-01-01'')) (PStr (py ''2025-01-01''))
     None None None (Some (PStr (py ''0123456789abcdef''))) None
   = Inr \<lparr>provider = PStr (py ''OpenAI''), model_id = PStr (py ''gpt-4-32k-0613''),
          model_name = PStr (py ''GPT-4 32k''), announcement_date = PStr (py ''2024-01-01''),
          shutdown_date = PStr (py ''2025-01-01''), replacement_models = PNone,
          deprecation_context = PStr [], url = PStr [],
          content_hash = PStr (py ''0123456789abcdef''),
          scraped_at = PStr (isoformat now0)\<rparr>
   \<and> from_dict fmt0 (now0\<lparr>year := 2027\<rparr>)
        (to_dict \<lparr>provider = PStr (py ''OpenAI''), model_id = PStr (py ''gpt-4-32k-0613''),
          model_name = PStr (py ''GPT-4 32k''), announcement_date = PStr (py ''2024-01-01''),
          shutdown_date = PStr (py ''2025-01-01''), replacement_models = PNone,
          deprecation_context = PStr [], url = PStr [],
          content_hash = PStr (py ''0123456789abcdef''),
          scraped_at = PStr (isoformat now0)\<rparr>)
     = Inr \<lparr>provider = PStr (py ''OpenAI''), model_id = PStr (py ''gpt-4-32k-0613''),
          model_name = PStr (py ''GPT-4 32k''), announcement_date = PStr (py ''2024-01-01''),
          shutdown_date = PStr (py ''2025-01-01''), replacement_models = PNone,
          deprecation_context = PStr [], url = PStr [],
          content_hash = PStr (py ''0123456789abcdef''),
          scraped_at = PStr (isoformat now0)\<rparr>"
proof -
  have made: "DeprecationItem_init fmt0 now0 (PStr (py ''OpenAI'')) (PStr (py ''gpt-4-32k-0613''))
     (PStr (py ''GPT-4 32k'')) (PStr (py ''2024-01-01'')) (PStr (py ''2025-01-01''))
     None None None (Some (PStr (py ''0123456789abcdef''))) None
   = Inr \<lparr>provider = PStr (py ''OpenAI''), model_id = PStr (py ''gpt-4-32k-0613''),
          model_name = PStr (py ''GPT-4 32k''), announcement_date = PStr (py ''2024-01-01''),
          shutdown_date = PStr (py ''2025-01-01''), replacement_models = PNone,
          deprecation_context = PStr [], url = PStr [],
          content_hash = PStr (py ''0123456789abcdef''),
          scraped_at = PStr (isoformat now0)\<rparr>"
    by (simp add: DeprecationItem_init_def post_init_def py_def)
  from C2_roundtrip [OF made, of fmt0 "now0\<lparr>year := 2027\<rparr>"] made show ?thesis
    by simp
qed

subsection \<open>The derived hash\<close>

lemma post_init_derives_hash:
  assumes "\<not> truthy (content_hash self)" and "encode (unique_content fmt self) = Inr bs"
  shows "post_init fmt now self =
           Inr ((if \<not> truthy (scraped_at self)
                 then self\<lparr>scraped_at := PStr (isoformat now)\<rparr> else self)
                \<lparr>content_hash := PStr (take 16 (hexdigest (sha256 bs)))\<rparr>)"
  using assms by (simp add: post_init_def compute_hash_encode)

text \<open>
  C1. When \<open>content_hash\<close> is left out or passed as the empty string and the four identity
  fields are strings, the record the constructor returns has as \<open>content_hash\<close> the first
  16 characters of the hexadecimal SHA-256 digest of the UTF-8 bytes of
  \<open>provider|model_id|shutdown_date|announcement_date\<close>. The example that follows the
  theorem is the construction for \<open>OpenAI\<close>, \<open>gpt-4-32k-0613\<close>.
\<close>

theorem C1_content_hash_derived:
  assumes "chash = None \<or> chash = Some (PStr [])"
    and "encode (p @ py ''|'' @ m @ py ''|'' @ sd @ py ''|'' @ ad) = Inr bs"
  shows "\<exists>r. DeprecationItem_init fmt now (PStr p) (PStr m) mname (PStr ad) (PStr sd)
                repl ctx u chash scraped = Inr r
             \<and> content_hash r = PStr (take 16 (hexdigest (sha256 bs)))"
proof -
  let ?self = "\<lparr>provider = PStr p, model_id = PStr m, model_name = mname,
        announcement_date = PStr ad, shutdown_date = PStr sd,
        replacement_models = (case repl of None \<Rightarrow> PNone | Some v \<Rightarrow> v),
        deprecation_context = (case ctx of None \<Rightarrow> PStr [] | Some v \<Rightarrow> v),
        url = (case u of None \<Rightarrow> PStr [] | Some v \<Rightarrow> v),
        content_hash = (case chash of None \<Rightarrow> PStr [] | Some v \<Rightarrow> v),
        scraped_at = (case scraped of None \<Rightarrow> PStr [] | Some v \<Rightarrow> v)\<rparr>"
  have falsy: "\<not> truthy (content_hash ?self)"
    using assms(1) by auto
  have content: "unique_content fmt ?self = p @ py ''|'' @ m @ py ''|'' @ sd @ py ''|'' @ ad"
    by (simp add: unique_content_def py_format_def)
  have enc: "encode (unique_content fmt ?self) = Inr bs"
    using assms(2) by (simp only: content)
  show ?thesis
    unfolding DeprecationItem_init_def
    by (subst post_init_derives_hash [OF falsy enc]) simp
qed

theorem C1_content_hash_derived_witness:
  "encode (py ''OpenAI'' @ py ''|'' @ py ''gpt-4-32k-0613'' @ py ''|'' @ py ''2025-01-01''
             @ py ''|'' @ py ''2024-01-01'')
     = Inr (map of_char ''OpenAI|gpt-4-32k-0613|2025-01-01|2024-01-01'')
   \<and> (\<exists>r. DeprecationItem_init fmt0 now0 (PStr (py ''OpenAI'')) (PStr (py ''gpt-4-32k-0613''))
              (PStr (py ''GPT-4 32k'')) (PStr (py ''2024-01-01'')) (PStr (py ''2025-01-01''))
              None None None None None = Inr r
          \<and> content_hash r = PStr (take 16 (hexdigest (sha256
                (map of_char ''OpenAI|gpt-4-32k-0613|2025-01-01|2024-01-01''))))
          \<and> content_hash r = PStr (py ''70183dd6388c56b4''))"
proof -
  have enc: "encode (py ''OpenAI'' @ py ''|'' @ py ''gpt-4-32k-0613'' @ py ''|'' @ py ''2025-01-01''
                @ py ''|'' @ py ''2024-01-01'')
       = Inr (map of_char ''OpenAI|gpt-4-32k-0613|2025-01-01|2024-01-01'')"
    by (simp add: py_def utf8_char_def)
  have om: "None = (None :: pyval option) \<or> None = Some (PStr [])"
    by simp
  have digest: "take 16 (hexdigest (sha256
        (map of_char ''OpenAI|gpt-4-32k-0613|2025-01-01|2024-01-01'')))
      = py ''70183dd6388c56b4''"
    by (simp add: hexdigest_openai) (simp add: py_def)
  from C1_content_hash_derived [OF om enc, of fmt0 now0 "PStr (py ''GPT-4 32k'')" None None None None]
  obtain r where "DeprecationItem_init fmt0 now0 (PStr (py ''OpenAI'')) (PStr (py ''gpt-4-32k-0613''))
              (PStr (py ''GPT-4 32k'')) (PStr (py ''2024-01-01'')) (PStr (py ''2025-01-01''))
              None None None None None = Inr r"
    and "content_hash r = PStr (take 16 (hexdigest (sha256
                (map of_char ''OpenAI|gpt-4-32k-0613|2025-01-01|2024-01-01''))))"
    by blast
  with enc digest show ?thesis
    by (intro conjI exI [of _ r]) simp_all
qed

subsection \<open>Equivalence and serialization\<close>

text \<open>
  C4. \<open>matches_previous\<close> holds exactly when \<open>provider\<close>, \<open>model_id\<close> and \<open>content_hash\<close>
  of the two records are equal under \<open>==\<close> (for strings: are the same string). It is
  reflexive and symmetric, and it does not look at \<open>model_name\<close>, \<open>url\<close>,
  \<open>deprecation_context\<close>, \<open>replacement_models\<close> or \<open>scraped_at\<close>.
\<close>

theorem C4_matches_previous:
  "(matches_previous a b \<longleftrightarrow>
      py_eq (provider a) (provider b) \<and> py_eq (model_id a) (model_id b)
      \<and> py_eq (content_hash a) (content_hash b))
   \<and> (provider a = PStr p \<and> model_id a = PStr m \<and> content_hash a = PStr h
      \<and> provider b = PStr p' \<and> model_id b = PStr m' \<and> content_hash b = PStr h'
      \<longrightarrow> (matches_previous a b \<longleftrightarrow> p = p' \<and> m = m' \<and> h = h'))
   \<and> matches_previous a a
   \<and> (matches_previous a b \<longleftrightarrow> matches_previous b a)
   \<and> (matches_previous
         (a\<lparr>model_name := n1, url := u1, deprecation_context := c1,
            replacement_models := r1, scraped_at := s1\<rparr>)
         (b\<lparr>model_name := n2, url := u2, deprecation_context := c2,
            replacement_models := r2, scraped_at := s2\<rparr>)
       \<longleftrightarrow> matches_previous a b)"
proof -
  have sym: "matches_previous a b \<longleftrightarrow> matches_previous b a"
    unfolding matches_previous_def
    by (simp only: py_eq_sym [of "provider a"] py_eq_sym [of "model_id a"]
          py_eq_sym [of "content_hash a"])
  show ?thesis
    using sym by (auto simp: matches_previous_def py_eq_refl)
qed

theorem C4_matches_previous_witness:
  "matches_previous
     \<lparr>provider = PStr (py ''OpenAI''), model_id = PStr (py ''gpt-4''),
      model_name = PStr (py ''GPT-4''), announcement_date = PStr (py ''2024-01-01''),
      shutdown_date = PStr (py ''2025-01-01''), replacement_models = PNone,
      deprecation_context = PStr [], url = PStr [], content_hash = PStr (py ''0123456789abcdef''),
      scraped_at = PStr (py ''2025-06-01T00:00:00+00:00'')\<rparr>
     \<lparr>provider = PStr (py ''OpenAI''), model_id = PStr (py ''gpt-4''),
      model_name = PStr (py ''GPT-4 (legacy)''), announcement_date = PStr (py ''2024-01-01''),
      shutdown_date = PStr (py ''2025-01-01''), replacement_models = PList [PStr (py ''gpt-4o'')],
      deprecation_context = PStr (py ''retired''), url = PStr (py ''https://example.org''),
      content_hash = PStr (py ''0123456789abcdef''),
      scraped_at = PStr (py ''2025-07-01T00:00:00+00:00'')\<rparr>
   \<and> \<not> matches_previous
     \<lparr>provider = PStr (py ''OpenAI''), model_id = PStr (py ''gpt-4''),
      model_name = PStr (py ''GPT-4''), announcement_date = PStr (py ''2024-01-01''),
      shutdown_date = PStr (py ''2025-01-01''), replacement_models = PNone,
      deprecation_context = PStr [], url = PStr [], content_hash = PStr (py ''0123456789abcdef''),
      scraped_at = PStr (py ''2025-06-01T00:00:00+00:00'')\<rparr>
     \<lparr>provider = PStr (py ''OpenAI''), model_id = PStr (py ''gpt-4''),
      model_name = PStr (py ''GPT-4''), announcement_date = PStr (py ''2024-01-01''),
      shutdown_date = PStr (py ''2025-01-01''), replacement_models = PNone,
      deprecation_context = PStr [], url = PStr [], content_hash = PStr (py ''fedcba9876543210''),
      scraped_at = PStr (py ''2025-06-01T00:00:00+00:00'')\<rparr>"
  using
    C4_matches_previous [of
     "\<lparr>provider = PStr (py ''OpenAI''), model_id = PStr (py ''gpt-4''),
      model_name = PStr (py ''GPT-4''), announcement_date = PStr (py ''2024-01-01''),
      shutdown_date = PStr (py ''2025-01-01''), replacement_models = PNone,
      deprecation_context = PStr [], url = PStr [], content_hash = PStr (py ''0123456789abcdef''),
      scraped_at = PStr (py ''2025-06-01T00:00:00+00:00'')\<rparr>"
     "\<lparr>provider = PStr (py ''OpenAI''), model_id = PStr (py ''gpt-4''),
      model_name = PStr (py ''GPT-4 (legacy)''), announcement_date = PStr (py ''2024-01-01''),
      shutdown_date = PStr (py ''2025-01-01''), replacement_models = PList [PStr (py ''gpt-4o'')],
      deprecation_context = PStr (py ''retired''), url = PStr (py ''https://example.org''),
      content_hash = PStr (py ''0123456789abcdef''),
      scraped_at = PStr (py ''2025-07-01T00:00:00+00:00'')\<rparr>"
     "py ''OpenAI''" "py ''gpt-4''" "py ''0123456789abcdef''"
     "py ''OpenAI''" "py ''gpt-4''" "py ''0123456789abcdef''"]
    C4_matches_previous [of
     "\<lparr>provider = PStr (py ''OpenAI''), model_id = PStr (py ''gpt-4''),
      model_name = PStr (py ''GPT-4''), announcement_date = PStr (py ''2024-01-01''),
      shutdown_date = PStr (py ''2025-01-01''), replacement_models = PNone,
      deprecation_context = PStr [], url = PStr [], content_hash = PStr (py ''0123456789abcdef''),
      scraped_at = PStr (py ''2025-06-01T00:00:00+00:00'')\<rparr>"
     "\<lparr>provider = PStr (py ''OpenAI''), model_id = PStr (py ''gpt-4''),
      model_name = PStr (py ''GPT-4''), announcement_date = PStr (py ''2024-01-01''),
      shutdown_date = PStr (py ''2025-01-01''), replacement_models = PNone,
      deprecation_context = PStr [], url = PStr [], content_hash = PStr (py ''fedcba9876543210''),
      scraped_at = PStr (py ''2025-06-01T00:00:00+00:00'')\<rparr>"
     "py ''OpenAI''" "py ''gpt-4''" "py ''0123456789abcdef''"
     "py ''OpenAI''" "py ''gpt-4''" "py ''fedcba9876543210''"]
  by (simp add: py_def)

text \<open>
  C8. \<open>to_dict\<close> returns exactly ten bindings, in the order \<open>provider\<close>, \<open>model_id\<close>,
  \<open>model_name\<close>, \<open>announcement_date\<close>, \<open>shutdown_date\<close>, \<open>replacement_models\<close>,
  \<open>deprecation_context\<close>, \<open>url\<close>, \<open>content_hash\<close>, \<open>scraped_at\<close>, each key bound to the
  value of the field; \<open>replacement_models\<close> is bound to \<open>None\<close> when the field is \<open>None\<close>
  and to the list otherwise.
\<close>

theorem C8_to_dict:
  "map fst (to_dict r) =
     [py ''provider'', py ''model_id'', py ''model_name'', py ''announcement_date'',
      py ''shutdown_date'', py ''replacement_models'', py ''deprecation_context'', py ''url'',
      py ''content_hash'', py ''scraped_at'']
   \<and> map snd (to_dict r) =
     [provider r, model_id r, model_name r, announcement_date r, shutdown_date r,
      replacement_models r, deprecation_context r, url r, content_hash r, scraped_at r]
   \<and> distinct (map fst (to_dict r))
   \<and> length (to_dict r) = 10
   \<and> (replacement_models r = PNone \<longrightarrow> map_of (to_dict r) (py ''replacement_models'') = Some PNone)
   \<and> (replacement_models r = PList xs \<longrightarrow>
        map_of (to_dict r) (py ''replacement_models'') = Some (PList xs))"
  by (simp add: to_dict_def py_def)

theorem C8_to_dict_witness:
  "replacement_models
     \<lparr>provider = PStr (py ''OpenAI''), model_id = PStr (py ''gpt-4''),
      model_name = PStr (py ''GPT-4''), announcement_date = PStr (py ''2024-01-01''),
      shutdown_date = PStr (py ''2025-01-01''), replacement_models = PList [PStr (py ''gpt-4o'')],
      deprecation_context = PStr [], url = PStr [], content_hash = PStr (py ''0123456789abcdef''),
      scraped_at = PStr (isoformat now0)\<rparr> = PList [PStr (py ''gpt-4o'')]
   \<and> map_of (to_dict
     \<lparr>provider = PStr (py ''OpenAI''), model_id = PStr (py ''gpt-4''),
      model_name = PStr (py ''GPT-4''), announcement_date = PStr (py ''2024-01-01''),
      shutdown_date = PStr (py ''2025-01-01''), replacement_models = PList [PStr (py ''gpt-4o'')],
      deprecation_context = PStr [], url = PStr [], content_hash = PStr (py ''0123456789abcdef''),
      scraped_at = PStr (isoformat now0)\<rparr>) (py ''replacement_models'')
     = Some (PList [PStr (py ''gpt-4o'')])
   \<and> replacement_models
     \<lparr>provider = PStr (py ''OpenAI''), model_id = PStr (py ''gpt-4''),
      model_name = PStr (py ''GPT-4''), announcement_date = PStr (py ''2024-01-01''),
      shutdown_date = PStr (py ''2025-01-01''), replacement_models = PNone,
      deprecation_context = PStr [], url = PStr [], content_hash = PStr (py ''0123456789abcdef''),
      scraped_at = PStr (isoformat now0)\<rparr> = PNone
   \<and> map_of (to_dict
     \<lparr>provider = PStr (py ''OpenAI''), model_id = PStr (py ''gpt-4''),
      model_name = PStr (py ''GPT-4''), announcement_date = PStr (py ''2024-01-01''),
      shutdown_date = PStr (py ''2025-01-01''), replacement_models = PNone,
      deprecation_context = PStr [], url = PStr [], content_hash = PStr (py ''0123456789abcdef''),
      scraped_at = PStr (isoformat now0)\<rparr>) (py ''replacement_models'')
     = Some PNone"
  using C8_to_dict [of "\<lparr>provider = PStr (py ''OpenAI''), model_id = PStr (py ''gpt-4''),
      model_name = PStr (py ''GPT-4''), announcement_date = PStr (py ''2024-01-01''),
      shutdown_date = PStr (py ''2025-01-01''), replacement_models = PList [PStr (py ''gpt-4o'')],
      deprecation_context = PStr [], url = PStr [], content_hash = PStr (py ''0123456789abcdef''),
      scraped_at = PStr (isoformat now0)\<rparr>" "[PStr (py ''gpt-4o'')]"]
    C8_to_dict [of "\<lparr>provider = PStr (py ''OpenAI''), model_id = PStr (py ''gpt-4''),
      model_name = PStr (py ''GPT-4''), announcement_date = PStr (py ''2024-01-01''),
      shutdown_date = PStr (py ''2025-01-01''), replacement_models = PNone,
      deprecation_context = PStr [], url = PStr [], content_hash = PStr (py ''0123456789abcdef''),
      scraped_at = PStr (isoformat now0)\<rparr>" "[]"]
  by simp

subsection \<open>What the constructor keeps and when it returns\<close>

lemma post_init_fields:
  assumes "post_init fmt now self = Inr r"
  shows "provider r = provider self" "model_id r = model_id self"
    "model_name r = model_name self" "announcement_date r = announcement_date self"
    "shutdown_date r = shutdown_date self" "replacement_models r = replacement_models self"
    "deprecation_context r = deprecation_context self" "url r = url self"
  using assms
  by (auto simp: post_init_def Let_def bind_err_eq_Inr split: if_splits)

lemma post_init_scraped_at:
  assumes "post_init fmt now self = Inr r"
  shows "scraped_at r = (if truthy (scraped_at self) then scraped_at self
                          else PStr (isoformat now))"
  using assms
  by (auto simp: post_init_def Let_def bind_err_eq_Inr split: if_splits)

lemma post_init_content_hash:
  assumes "post_init fmt now self = Inr r"
  shows "if truthy (content_hash self) then content_hash r = content_hash self
         else (\<exists>bs. encode (unique_content fmt self) = Inr bs
                 \<and> content_hash r = PStr (take 16 (hexdigest (sha256 bs))))"
  using assms
  by (auto simp: post_init_def Let_def compute_hash_def bind_err_eq_Inr split: if_splits)


lemma unique_content_cong:
  "provider r = provider s \<Longrightarrow> model_id r = model_id s \<Longrightarrow> shutdown_date r = shutdown_date s
     \<Longrightarrow> announcement_date r = announcement_date s
     \<Longrightarrow> unique_content fmt r = unique_content fmt s"
  by (simp add: unique_content_def)

lemma str_split_nonempty: "str_split sep s \<noteq> []"
  by (simp add: str_split_def str_split_from_nonempty)

lemma index_first_hd: "xs \<noteq> [] \<Longrightarrow> index_first xs = Inr (hd xs)"
  by (cases xs) simp_all

lemma index_last_last: "xs \<noteq> [] \<Longrightarrow> index_last xs = Inr (last xs)"
  by (cases xs) simp_all

lemma migrate_old_value_str:
  "migrate_old_value (PStr v) =
     Inr (if str_contains (py ''or'') v
             \<and> \<not> str_contains (py '' '') (hd (str_split (py ''or'') v))
             \<and> \<not> str_contains (py '' '') (last (str_split (py ''or'') v))
          then PList (map PStr (filter (\<lambda>m. m \<noteq> []) (str_split (py ''or'') v)))
          else PList [PStr v])"
  by (simp add: migrate_old_value_def index_first_hd index_last_last str_split_nonempty)






lemma from_dict_post_init:
  "from_dict fmt now data =
     bind_err (legacy_replacement_models data) (\<lambda>rm.
       post_init fmt now
         \<lparr>provider = dict_get data (py ''provider'') (PStr []),
          model_id = dict_get data (py ''model_id'') (PStr []),
          model_name = dict_get data (py ''model_name'') (PStr []),
          announcement_date = dict_get data (py ''announcement_date'') (PStr []),
          shutdown_date = dict_get data (py ''shutdown_date'') (PStr []),
          replacement_models = rm,
          deprecation_context = dict_get data (py ''deprecation_context'') (PStr []),
          url = dict_get data (py ''url'') (PStr []),
          content_hash = dict_get data (py ''content_hash'') (PStr []),
          scraped_at = dict_get data (py ''scraped_at'') (PStr [])\<rparr>)"
  by (simp add: from_dict_def DeprecationItem_init_def)

lemma from_dict_replacement:
  assumes "from_dict fmt now data = Inr r"
  shows "legacy_replacement_models data = Inr (replacement_models r)"
  using assms
  by (auto simp: from_dict_post_init bind_err_eq_Inr dest: post_init_fields(6))

subsection \<open>Legacy migration\<close>

text \<open>
  C3, as amended. When \<open>from_dict\<close> returns a record: a \<open>replacement_models\<close> value that
  is present and not \<open>None\<close> is passed through and the legacy key is ignored; otherwise a
  legacy \<open>replacement_model\<close> holding a non-empty string \<open>v\<close> is split on \<open>or\<close>, empty
  segments dropped, when \<open>v\<close> contains \<open>or\<close> and neither the text before the first \<open>or\<close>
  nor the text after the last \<open>or\<close> contains a space character (U+0020), and becomes the
  one-element list \<open>[v]\<close> in every other case; a legacy value that is absent or the empty
  string gives \<open>None\<close>. The test is for the space character only, not for whitespace.
\<close>

theorem C3_legacy_migration:
  assumes "from_dict fmt now data = Inr r"
  shows
    "(dict_get data (py ''replacement_models'') PNone \<noteq> PNone \<longrightarrow>
        replacement_models r = dict_get data (py ''replacement_models'') PNone)
     \<and> (dict_get data (py ''replacement_models'') PNone = PNone
          \<and> map_of data (py ''replacement_model'') = Some (PStr v) \<and> v \<noteq> [] \<longrightarrow>
        str_split (py ''or'') v \<noteq> []
        \<and> replacement_models r =
          (if str_contains (py ''or'') v
              \<and> \<not> str_contains (py '' '') (hd (str_split (py ''or'') v))
              \<and> \<not> str_contains (py '' '') (last (str_split (py ''or'') v))
           then PList (map PStr (filter (\<lambda>m. m \<noteq> []) (str_split (py ''or'') v)))
           else PList [PStr v]))
     \<and> (dict_get data (py ''replacement_models'') PNone = PNone
          \<and> (map_of data (py ''replacement_model'') = None
               \<or> map_of data (py ''replacement_model'') = Some (PStr [])) \<longrightarrow>
        replacement_models r = PNone)"
proof -
  have leg: "legacy_replacement_models data = Inr (replacement_models r)"
    using assms by (rule from_dict_replacement)
  have one: "dict_get data (py ''replacement_models'') PNone \<noteq> PNone \<longrightarrow>
        replacement_models r = dict_get data (py ''replacement_models'') PNone"
    using leg by (auto simp: legacy_replacement_models_def Let_def)
  have two: "dict_get data (py ''replacement_models'') PNone = PNone
          \<and> map_of data (py ''replacement_model'') = Some (PStr v) \<and> v \<noteq> [] \<longrightarrow>
        str_split (py ''or'') v \<noteq> []
        \<and> replacement_models r =
          (if str_contains (py ''or'') v
              \<and> \<not> str_contains (py '' '') (hd (str_split (py ''or'') v))
              \<and> \<not> str_contains (py '' '') (last (str_split (py ''or'') v))
           then PList (map PStr (filter (\<lambda>m. m \<noteq> []) (str_split (py ''or'') v)))
           else PList [PStr v])"
  proof (intro impI, elim conjE)
    assume none: "dict_get data (py ''replacement_models'') PNone = PNone"
      and old: "map_of data (py ''replacement_model'') = Some (PStr v)"
      and nonempty: "v \<noteq> []"
    have "dict_contains data (py ''replacement_model'')"
      using old by (simp add: dict_contains_def)
    moreover have "dict_get data (py ''replacement_model'') PNone = PStr v"
      using old by (simp add: dict_get_def)
    ultimately have "legacy_replacement_models data = migrate_old_value (PStr v)"
      using none nonempty by (simp add: legacy_replacement_models_def)
    with leg have "migrate_old_value (PStr v) = Inr (replacement_models r)"
      by simp
    then show "str_split (py ''or'') v \<noteq> []
        \<and> replacement_models r =
          (if str_contains (py ''or'') v
              \<and> \<not> str_contains (py '' '') (hd (str_split (py ''or'') v))
              \<and> \<not> str_contains (py '' '') (last (str_split (py ''or'') v))
           then PList (map PStr (filter (\<lambda>m. m \<noteq> []) (str_split (py ''or'') v)))
           else PList [PStr v])"
      by (simp add: migrate_old_value_str str_split_nonempty del: str_contains.simps)
  qed
  have three: "dict_get data (py ''replacement_models'') PNone = PNone
          \<and> (map_of data (py ''replacement_model'') = None
               \<or> map_of data (py ''replacement_model'') = Some (PStr [])) \<longrightarrow>
        replacement_models r = PNone"
    using leg
    by (auto simp: legacy_replacement_models_def Let_def dict_contains_def dict_get_def)
  from one two three show ?thesis by blast
qed

lemma from_dict_legacy_only:
  "from_dict fmt now [(py ''replacement_model'', PStr v)] =
     bind_err (if v = [] then Inr PNone else migrate_old_value (PStr v)) (\<lambda>rm.
       Inr \<lparr>provider = PStr [], model_id = PStr [], model_name = PStr [],
            announcement_date = PStr [], shutdown_date = PStr [], replacement_models = rm,
            deprecation_context = PStr [], url = PStr [],
            content_hash = PStr (take 16 (hexdigest (sha256 [124, 124, 124]))),
            scraped_at = PStr (isoformat now)\<rparr>)"
proof -
  have enc: "encode (py ''|'' @ py ''|'' @ py ''|'') = Inr [124, 124, 124]"
    by (simp add: py_def utf8_char_def)
  have leg: "legacy_replacement_models [(py ''replacement_model'', PStr v)] =
      (if v = [] then Inr PNone else migrate_old_value (PStr v))"
    by (simp add: legacy_replacement_models_def dict_get_def dict_contains_def py_def)
  have post: "\<And>rm. post_init fmt now
       \<lparr>provider = PStr [], model_id = PStr [], model_name = PStr [],
        announcement_date = PStr [], shutdown_date = PStr [], replacement_models = rm,
        deprecation_context = PStr [], url = PStr [], content_hash = PStr [],
        scraped_at = PStr []\<rparr>
     = Inr \<lparr>provider = PStr [], model_id = PStr [], model_name = PStr [],
            announcement_date = PStr [], shutdown_date = PStr [], replacement_models = rm,
            deprecation_context = PStr [], url = PStr [],
            content_hash = PStr (take 16 (hexdigest (sha256 [124, 124, 124]))),
            scraped_at = PStr (isoformat now)\<rparr>"
    by (simp add: post_init_def unique_content_def py_format_def compute_hash_encode [OF enc])
  show ?thesis
    unfolding from_dict_post_init leg
    by (simp add: dict_get_def py_def post)
qed

theorem C3_legacy_migration_witness:
  "from_dict fmt0 now0 [(py ''replacement_model'', PStr (py ''gpt-image-1orgpt-image-1-mini''))]
     = Inr \<lparr>provider = PStr [], model_id = PStr [], model_name = PStr [],
            announcement_date = PStr [], shutdown_date = PStr [],
            replacement_models = PList [PStr (py ''gpt-image-1''), PStr (py ''gpt-image-1-mini'')],
            deprecation_context = PStr [], url = PStr [],
            content_hash = PStr (take 16 (hexdigest (sha256 [124, 124, 124]))),
            scraped_at = PStr (isoformat now0)\<rparr>
   \<and> from_dict fmt0 now0 [(py ''replacement_model'', PStr (py ''gpt-4-turbo''))]
     = Inr \<lparr>provider = PStr [], model_id = PStr [], model_name = PStr [],
            announcement_date = PStr [], shutdown_date = PStr [],
            replacement_models = PList [PStr (py ''gpt-4-turbo'')],
            deprecation_context = PStr [], url = PStr [],
            content_hash = PStr (take 16 (hexdigest (sha256 [124, 124, 124]))),
            scraped_at = PStr (isoformat now0)\<rparr>
   \<and> from_dict fmt0 now0 [(py ''replacement_model'', PStr [])]
     = Inr \<lparr>provider = PStr [], model_id = PStr [], model_name = PStr [],
            announcement_date = PStr [], shutdown_date = PStr [],
            replacement_models = PNone,
            deprecation_context = PStr [], url = PStr [],
            content_hash = PStr (take 16 (hexdigest (sha256 [124, 124, 124]))),
            scraped_at = PStr (isoformat now0)\<rparr>"
proof -
  have a: "from_dict fmt0 now0
      [(py ''replacement_model'', PStr (py ''gpt-image-1orgpt-image-1-mini''))]
     = Inr \<lparr>provider = PStr [], model_id = PStr [], model_name = PStr [],
            announcement_date = PStr [], shutdown_date = PStr [],
            replacement_models = PList [PStr (py ''gpt-image-1''), PStr (py ''gpt-image-1-mini'')],
            deprecation_context = PStr [], url = PStr [],
            content_hash = PStr (take 16 (hexdigest (sha256 [124, 124, 124]))),
            scraped_at = PStr (isoformat now0)\<rparr>"
    by (simp add: from_dict_legacy_only migrate_old_value_str)
       (simp add: py_def str_split_def)
  have b: "from_dict fmt0 now0 [(py ''replacement_model'', PStr (py ''gpt-4-turbo''))]
     = Inr \<lparr>provider = PStr [], model_id = PStr [], model_name = PStr [],
            announcement_date = PStr [], shutdown_date = PStr [],
            replacement_models = PList [PStr (py ''gpt-4-turbo'')],
            deprecation_context = PStr [], url = PStr [],
            content_hash = PStr (take 16 (hexdigest (sha256 [124, 124, 124]))),
            scraped_at = PStr (isoformat now0)\<rparr>"
    by (simp add: from_dict_legacy_only migrate_old_value_str)
       (simp add: py_def str_split_def)
  have c: "from_dict fmt0 now0 [(py ''replacement_model'', PStr [])]
     = Inr \<lparr>provider = PStr [], model_id = PStr [], model_name = PStr [],
            announcement_date = PStr [], shutdown_date = PStr [],
            replacement_models = PNone,
            deprecation_context = PStr [], url = PStr [],
            content_hash = PStr (take 16 (hexdigest (sha256 [124, 124, 124]))),
            scraped_at = PStr (isoformat now0)\<rparr>"
    by (simp add: from_dict_legacy_only)
  note C3_legacy_migration [OF a, of "py ''gpt-image-1orgpt-image-1-mini''"]
    C3_legacy_migration [OF b, of "py ''gpt-4-turbo''"]
    C3_legacy_migration [OF c, of "[]"]
  with a b c show ?thesis by simp
qed

theorem C3_whitespace_counterexample:
  "map_sum id replacement_models
     (from_dict fmt0 now0 [(py ''replacement_model'', PStr [97, 9, 111, 114, 98])])
     = Inr (PList [PStr [97, 9], PStr [98]])
   \<and> spec_migrate [97, 9, 111, 114, 98] = PList [PStr [97, 9, 111, 114, 98]]"
proof -
  have "from_dict fmt0 now0 [(py ''replacement_model'', PStr [97, 9, 111, 114, 98])]
     = Inr \<lparr>provider = PStr [], model_id = PStr [], model_name = PStr [],
            announcement_date = PStr [], shutdown_date = PStr [],
            replacement_models = PList [PStr [97, 9], PStr [98]],
            deprecation_context = PStr [], url = PStr [],
            content_hash = PStr (take 16 (hexdigest (sha256 [124, 124, 124]))),
            scraped_at = PStr (isoformat now0)\<rparr>"
    by (simp add: from_dict_legacy_only migrate_old_value_str)
       (simp add: py_def str_split_def)
  moreover have "spec_migrate [97, 9, 111, 114, 98] = PList [PStr [97, 9, 111, 114, 98]]"
    by (simp add: spec_migrate_def py_def str_split_def spec_is_whitespace_def)
  ultimately show ?thesis by simp
qed

text \<open>
  C9. A legacy value without spaces that merely contains \<open>or\<close> is split as well, and the
  empty segments are dropped: for the input \<open>{"replacement_model": "orca"}\<close> the split is
  \<open>["", "ca"]\<close> and \<open>from_dict\<close> returns a record with \<open>replacement_models == ["ca"]\<close>.
\<close>

theorem C9_orca:
  "str_split (py ''or'') (py ''orca'') = [[], py ''ca'']
   \<and> from_dict fmt now [(py ''replacement_model'', PStr (py ''orca''))]
     = Inr \<lparr>provider = PStr [], model_id = PStr [], model_name = PStr [],
            announcement_date = PStr [], shutdown_date = PStr [],
            replacement_models = PList [PStr (py ''ca'')],
            deprecation_context = PStr [], url = PStr [],
            content_hash = PStr (take 16 (hexdigest (sha256 [124, 124, 124]))),
            scraped_at = PStr (isoformat now)\<rparr>
   \<and> PList [PStr (py ''ca'')] \<noteq> PList [PStr (py ''orca'')]"
proof -
  have split: "str_split (py ''or'') (py ''orca'') = [[], py ''ca'']"
    by (simp add: py_def str_split_def)
  have "from_dict fmt now [(py ''replacement_model'', PStr (py ''orca''))]
     = Inr \<lparr>provider = PStr [], model_id = PStr [], model_name = PStr [],
            announcement_date = PStr [], shutdown_date = PStr [],
            replacement_models = PList [PStr (py ''ca'')],
            deprecation_context = PStr [], url = PStr [],
            content_hash = PStr (take 16 (hexdigest (sha256 [124, 124, 124]))),
            scraped_at = PStr (isoformat now)\<rparr>"
    by (simp add: from_dict_legacy_only migrate_old_value_str split)
       (simp add: py_def)
  moreover have "PList [PStr (py ''ca'')] \<noteq> PList [PStr (py ''orca'')]"
    by (simp add: py_def)
  ultimately show ?thesis using split by simp
qed

subsection \<open>Missing keys\<close>

lemma from_dict_empty:
  "from_dict fmt now [] =
     Inr \<lparr>provider = PStr [], model_id = PStr [], model_name = PStr [],
          announcement_date = PStr [], shutdown_date = PStr [], replacement_models = PNone,
          deprecation_context = PStr [], url = PStr [],
          content_hash = PStr (take 16 (hexdigest (sha256 [124, 124, 124]))),
          scraped_at = PStr (isoformat now)\<rparr>"
proof -
  have enc: "encode (py ''|'' @ py ''|'' @ py ''|'') = Inr [124, 124, 124]"
    by (simp add: py_def utf8_char_def)
  show ?thesis
    by (simp add: from_dict_post_init legacy_replacement_models_def dict_get_def
          dict_contains_def post_init_def unique_content_def py_format_def
          compute_hash_encode [OF enc])
qed

lemma isoformat_now0: "isoformat now0 = py ''2026-11-04T14:02:33.123456+00:00''"
  by (simp add: isoformat_def zfill_def digits.simps py_def)

lemma from_dict_fields:
  assumes "from_dict fmt now data = Inr r"
  shows "provider r = dict_get data (py ''provider'') (PStr [])"
    "model_id r = dict_get data (py ''model_id'') (PStr [])"
    "model_name r = dict_get data (py ''model_name'') (PStr [])"
    "announcement_date r = dict_get data (py ''announcement_date'') (PStr [])"
    "shutdown_date r = dict_get data (py ''shutdown_date'') (PStr [])"
    "deprecation_context r = dict_get data (py ''deprecation_context'') (PStr [])"
    "url r = dict_get data (py ''url'') (PStr [])"
  using assms
  by (auto simp: from_dict_post_init bind_err_eq_Inr dest: post_init_fields)

lemma from_dict_scraped_at:
  assumes "from_dict fmt now data = Inr r"
  shows "scraped_at r =
     (if truthy (dict_get data (py ''scraped_at'') (PStr []))
      then dict_get data (py ''scraped_at'') (PStr []) else PStr (isoformat now))"
  using assms
  by (auto simp: from_dict_post_init bind_err_eq_Inr dest!: post_init_scraped_at)

lemma from_dict_content_hash:
  assumes "from_dict fmt now data = Inr r"
  shows "if truthy (dict_get data (py ''content_hash'') (PStr []))
         then content_hash r = dict_get data (py ''content_hash'') (PStr [])
         else (\<exists>bs. encode (unique_content fmt r) = Inr bs
                 \<and> content_hash r = PStr (take 16 (hexdigest (sha256 bs))))"
proof -
  from assms obtain rm where
    post: "post_init fmt now
         \<lparr>provider = dict_get data (py ''provider'') (PStr []),
          model_id = dict_get data (py ''model_id'') (PStr []),
          model_name = dict_get data (py ''model_name'') (PStr []),
          announcement_date = dict_get data (py ''announcement_date'') (PStr []),
          shutdown_date = dict_get data (py ''shutdown_date'') (PStr []),
          replacement_models = rm,
          deprecation_context = dict_get data (py ''deprecation_context'') (PStr []),
          url = dict_get data (py ''url'') (PStr []),
          content_hash = dict_get data (py ''content_hash'') (PStr []),
          scraped_at = dict_get data (py ''scraped_at'') (PStr [])\<rparr> = Inr r"
    (is "post_init fmt now ?self = Inr r")
    by (auto simp: from_dict_post_init bind_err_eq_Inr)
  have same: "unique_content fmt r = unique_content fmt ?self"
    using post_init_fields [OF post] by (intro unique_content_cong) simp_all
  from post_init_content_hash [OF post] show ?thesis
    by (simp add: same)
qed

text \<open>
  C5, as amended. In the record \<open>from_dict\<close> returns, a key missing from the map gives the
  empty string for \<open>provider\<close>, \<open>model_id\<close>, \<open>model_name\<close>, \<open>announcement_date\<close>,
  \<open>shutdown_date\<close>, \<open>deprecation_context\<close> and \<open>url\<close>, and \<open>None\<close> for
  \<open>replacement_models\<close> when the legacy key is missing too. A missing \<open>content_hash\<close> is
  replaced by the hash derived from the four identity fields, and a missing \<open>scraped_at\<close>
  by the current time: the constructor fills both.
\<close>

theorem C5_missing_keys:
  assumes "from_dict fmt now data = Inr r"
  shows
    "(map_of data (py ''provider'') = None \<longrightarrow> provider r = PStr [])
     \<and> (map_of data (py ''model_id'') = None \<longrightarrow> model_id r = PStr [])
     \<and> (map_of data (py ''model_name'') = None \<longrightarrow> model_name r = PStr [])
     \<and> (map_of data (py ''announcement_date'') = None \<longrightarrow> announcement_date r = PStr [])
     \<and> (map_of data (py ''shutdown_date'') = None \<longrightarrow> shutdown_date r = PStr [])
     \<and> (map_of data (py ''deprecation_context'') = None \<longrightarrow> deprecation_context r = PStr [])
     \<and> (map_of data (py ''url'') = None \<longrightarrow> url r = PStr [])
     \<and> (map_of data (py ''replacement_models'') = None
          \<and> map_of data (py ''replacement_model'') = None \<longrightarrow> replacement_models r = PNone)
     \<and> (map_of data (py ''content_hash'') = None \<longrightarrow>
          (\<exists>bs. encode (unique_content fmt r) = Inr bs
             \<and> content_hash r = PStr (take 16 (hexdigest (sha256 bs)))))
     \<and> (map_of data (py ''scraped_at'') = None \<longrightarrow> scraped_at r = PStr (isoformat now))"
proof -
  have rm: "map_of data (py ''replacement_models'') = None
          \<and> map_of data (py ''replacement_model'') = None \<longrightarrow> replacement_models r = PNone"
    using from_dict_replacement [OF assms]
    by (auto simp: legacy_replacement_models_def dict_get_def dict_contains_def)
  have ch: "map_of data (py ''content_hash'') = None \<longrightarrow>
          (\<exists>bs. encode (unique_content fmt r) = Inr bs
             \<and> content_hash r = PStr (take 16 (hexdigest (sha256 bs))))"
    using from_dict_content_hash [OF assms] by (auto simp: dict_get_def)
  have sa: "map_of data (py ''scraped_at'') = None \<longrightarrow> scraped_at r = PStr (isoformat now)"
    using from_dict_scraped_at [OF assms] by (auto simp: dict_get_def)
  show ?thesis
    using rm ch sa by (simp add: from_dict_fields [OF assms] dict_get_def)
qed

theorem C5_missing_keys_witness:
  "from_dict fmt0 now0 [] =
     Inr \<lparr>provider = PStr [], model_id = PStr [], model_name = PStr [],
          announcement_date = PStr [], shutdown_date = PStr [], replacement_models = PNone,
          deprecation_context = PStr [], url = PStr [],
          content_hash = PStr (take 16 (hexdigest (sha256 [124, 124, 124]))),
          scraped_at = PStr (isoformat now0)\<rparr>
   \<and> (\<exists>bs. encode (unique_content fmt0
          \<lparr>provider = PStr [], model_id = PStr [], model_name = PStr [],
           announcement_date = PStr [], shutdown_date = PStr [], replacement_models = PNone,
           deprecation_context = PStr [], url = PStr [],
           content_hash = PStr (take 16 (hexdigest (sha256 [124, 124, 124]))),
           scraped_at = PStr (isoformat now0)\<rparr>) = Inr bs
         \<and> take 16 (hexdigest (sha256 [124, 124, 124])) = take 16 (hexdigest (sha256 bs)))"
  using C5_missing_keys [OF from_dict_empty [of fmt0 now0]] from_dict_empty [of fmt0 now0]
  by simp

theorem C5_defaults_counterexample:
  "map_sum id content_hash (from_dict fmt0 now0 []) = Inr (PStr (py ''be5be69f55e91af2''))
   \<and> map_sum id content_hash (from_dict fmt0 now0 []) \<noteq> Inr (PStr [])
   \<and> map_sum id scraped_at (from_dict fmt0 now0 [])
     = Inr (PStr (py ''2026-11-04T14:02:33.123456+00:00''))
   \<and> map_sum id scraped_at (from_dict fmt0 now0 []) \<noteq> Inr (PStr [])"
proof -
  have digest: "take 16 (hexdigest (sha256 [124, 124, 124])) = py ''be5be69f55e91af2''"
    by (simp add: hexdigest_bars) (simp add: py_def)
  show ?thesis
    by (simp add: from_dict_empty isoformat_now0 digest) (simp add: py_def)
qed

subsection \<open>Shape of the hash\<close>

lemma derived_hash_shape:
  "length (take 16 (hexdigest (sha256 bs))) = 16
   \<and> (\<forall>c \<in> set (take 16 (hexdigest (sha256 bs))). is_lower_hex c)"
  using hexdigest_lower
  by (auto simp: length_hexdigest length_sha256 dest: in_set_takeD)

lemma init_content_hash:
  assumes "DeprecationItem_init fmt now prov mid mname adate sdate repl ctx u chash scraped = Inr r"
  shows "case chash of
           None \<Rightarrow> (\<exists>bs. content_hash r = PStr (take 16 (hexdigest (sha256 bs))))
         | Some v \<Rightarrow> if truthy v then content_hash r = v
                     else (\<exists>bs. content_hash r = PStr (take 16 (hexdigest (sha256 bs))))"
  using post_init_content_hash [OF assms [unfolded DeprecationItem_init_def]]
  by (auto split: option.splits if_splits)

text \<open>
  C6, as amended. A record returned by the constructor or by \<open>from_dict\<close> whose
  \<open>content_hash\<close> was not supplied (left out, missing from the map, or falsy such as the
  empty string) has a \<open>content_hash\<close> of exactly 16 characters, each a lowercase
  hexadecimal digit. A \<open>content_hash\<close> that is supplied and truthy is stored as it is,
  whatever its length and characters.
\<close>

theorem C6_hash_shape:
  "(DeprecationItem_init fmt now prov mid mname adate sdate repl ctx u chash scraped = Inr r
      \<and> (chash = None \<or> (\<exists>v. chash = Some v \<and> \<not> truthy v))
    \<longrightarrow> (\<exists>h. content_hash r = PStr h \<and> length h = 16 \<and> (\<forall>c \<in> set h. is_lower_hex c)))
   \<and> (DeprecationItem_init fmt now prov mid mname adate sdate repl ctx u (Some w) scraped = Inr r'
      \<and> truthy w
    \<longrightarrow> content_hash r' = w)
   \<and> (from_dict fmt now data = Inr r''
      \<and> \<not> truthy (dict_get data (py ''content_hash'') (PStr []))
    \<longrightarrow> (\<exists>h. content_hash r'' = PStr h \<and> length h = 16 \<and> (\<forall>c \<in> set h. is_lower_hex c)))
   \<and> (from_dict fmt now data = Inr r''
      \<and> truthy (dict_get data (py ''content_hash'') (PStr []))
    \<longrightarrow> content_hash r'' = dict_get data (py ''content_hash'') (PStr []))"
proof -
  have a: "DeprecationItem_init fmt now prov mid mname adate sdate repl ctx u chash scraped = Inr r
      \<and> (chash = None \<or> (\<exists>v. chash = Some v \<and> \<not> truthy v))
    \<longrightarrow> (\<exists>h. content_hash r = PStr h \<and> length h = 16 \<and> (\<forall>c \<in> set h. is_lower_hex c))"
  proof (intro impI, elim conjE)
    assume made: "DeprecationItem_init fmt now prov mid mname adate sdate repl ctx u chash scraped
        = Inr r"
      and absent: "chash = None \<or> (\<exists>v. chash = Some v \<and> \<not> truthy v)"
    from init_content_hash [OF made] absent
    obtain bs where "content_hash r = PStr (take 16 (hexdigest (sha256 bs)))"
      by (auto split: option.splits if_splits)
    with derived_hash_shape [of bs]
    show "\<exists>h. content_hash r = PStr h \<and> length h = 16 \<and> (\<forall>c \<in> set h. is_lower_hex c)"
      by blast
  qed
  have b: "DeprecationItem_init fmt now prov mid mname adate sdate repl ctx u (Some w) scraped = Inr r'
      \<and> truthy w \<longrightarrow> content_hash r' = w"
    using init_content_hash [of fmt now prov mid mname adate sdate repl ctx u "Some w" scraped r']
    by auto
  have c: "from_dict fmt now data = Inr r''
      \<and> \<not> truthy (dict_get data (py ''content_hash'') (PStr []))
    \<longrightarrow> (\<exists>h. content_hash r'' = PStr h \<and> length h = 16 \<and> (\<forall>c \<in> set h. is_lower_hex c))"
  proof (intro impI, elim conjE)
    assume made: "from_dict fmt now data = Inr r''"
      and absent: "\<not> truthy (dict_get data (py ''content_hash'') (PStr []))"
    from from_dict_content_hash [OF made] absent
    obtain bs where "content_hash r'' = PStr (take 16 (hexdigest (sha256 bs)))"
      by auto
    with derived_hash_shape [of bs]
    show "\<exists>h. content_hash r'' = PStr h \<and> length h = 16 \<and> (\<forall>c \<in> set h. is_lower_hex c)"
      by blast
  qed
  have d: "from_dict fmt now data = Inr r''
      \<and> truthy (dict_get data (py ''content_hash'') (PStr []))
    \<longrightarrow> content_hash r'' = dict_get data (py ''content_hash'') (PStr [])"
    using from_dict_content_hash [of fmt now data r''] by auto
  from a b c d show ?thesis by blast
qed

lemma init_explicit_hash:
  "DeprecationItem_init fmt0 now0 (PStr (py ''OpenAI'')) (PStr (py ''gpt-4''))
     (PStr (py ''GPT-4'')) (PStr (py ''2024-01-01'')) (PStr (py ''2025-01-01''))
     None None None (Some (PStr (py ''abc''))) None
   = Inr \<lparr>provider = PStr (py ''OpenAI''), model_id = PStr (py ''gpt-4''),
          model_name = PStr (py ''GPT-4''), announcement_date = PStr (py ''2024-01-01''),
          shutdown_date = PStr (py ''2025-01-01''), replacement_models = PNone,
          deprecation_context = PStr [], url = PStr [],
          content_hash = PStr (py ''abc''),
          scraped_at = PStr (isoformat now0)\<rparr>"
  by (simp add: DeprecationItem_init_def post_init_def py_def)

theorem C6_hash_shape_witness:
  "from_dict fmt0 now0 [] =
     Inr \<lparr>provider = PStr [], model_id = PStr [], model_name = PStr [],
          announcement_date = PStr [], shutdown_date = PStr [], replacement_models = PNone,
          deprecation_context = PStr [], url = PStr [],
          content_hash = PStr (take 16 (hexdigest (sha256 [124, 124, 124]))),
          scraped_at = PStr (isoformat now0)\<rparr>
   \<and> \<not> truthy (dict_get [] (py ''content_hash'') (PStr []))
   \<and> (\<exists>h. take 16 (hexdigest (sha256 [124, 124, 124])) = h \<and> length h = 16
          \<and> list_all is_lower_hex h)
   \<and> truthy (PStr (py ''abc''))
   \<and> content_hash \<lparr>provider = PStr (py ''OpenAI''), model_id = PStr (py ''gpt-4''),
          model_name = PStr (py ''GPT-4''), announcement_date = PStr (py ''2024-01-01''),
          shutdown_date = PStr (py ''2025-01-01''), replacement_models = PNone,
          deprecation_context = PStr [], url = PStr [],
          content_hash = PStr (py ''abc''),
          scraped_at = PStr (isoformat now0)\<rparr> = PStr (py ''abc'')"
proof -
  have falsy: "\<not> truthy (dict_get [] (py ''content_hash'') (PStr []))"
    by (simp add: dict_get_def)
  have kept: "truthy (PStr (py ''abc''))"
    by (simp add: py_def)
  let ?r0 = "\<lparr>provider = PStr [], model_id = PStr [], model_name = PStr [],
          announcement_date = PStr [], shutdown_date = PStr [], replacement_models = PNone,
          deprecation_context = PStr [], url = PStr [],
          content_hash = PStr (take 16 (hexdigest (sha256 [124, 124, 124]))),
          scraped_at = PStr (isoformat now0)\<rparr>"
  let ?r1 = "\<lparr>provider = PStr (py ''OpenAI''), model_id = PStr (py ''gpt-4''),
          model_name = PStr (py ''GPT-4''), announcement_date = PStr (py ''2024-01-01''),
          shutdown_date = PStr (py ''2025-01-01''), replacement_models = PNone,
          deprecation_context = PStr [], url = PStr [],
          content_hash = PStr (py ''abc''),
          scraped_at = PStr (isoformat now0)\<rparr>"
  note inst = C6_hash_shape [where fmt = fmt0 and now = now0 and data = "[]" and r'' = ?r0
      and prov = "PStr (py ''OpenAI'')" and mid = "PStr (py ''gpt-4'')"
      and mname = "PStr (py ''GPT-4'')" and adate = "PStr (py ''2024-01-01'')"
      and sdate = "PStr (py ''2025-01-01'')" and repl = None and ctx = None and u = None
      and scraped = None and w = "PStr (py ''abc'')" and r' = ?r1]
  have derived: "\<exists>h. content_hash ?r0 = PStr h \<and> length h = 16 \<and> (\<forall>c \<in> set h. is_lower_hex c)"
    using inst [THEN conjunct2, THEN conjunct2, THEN conjunct1] from_dict_empty [of fmt0 now0] falsy
    by blast
  have stored: "content_hash ?r1 = PStr (py ''abc'')"
    using inst [THEN conjunct2, THEN conjunct1] init_explicit_hash kept
    by blast
  from derived have "\<exists>h. take 16 (hexdigest (sha256 [124, 124, 124])) = h \<and> length h = 16
          \<and> list_all is_lower_hex h"
    by (simp add: list_all_iff)
  with from_dict_empty [of fmt0 now0] falsy kept stored show ?thesis
    by simp
qed

theorem C6_explicit_hash_counterexample:
  "DeprecationItem_init fmt0 now0 (PStr (py ''OpenAI'')) (PStr (py ''gpt-4''))
     (PStr (py ''GPT-4'')) (PStr (py ''2024-01-01'')) (PStr (py ''2025-01-01''))
     None None None (Some (PStr (py ''abc''))) None
   = Inr \<lparr>provider = PStr (py ''OpenAI''), model_id = PStr (py ''gpt-4''),
          model_name = PStr (py ''GPT-4''), announcement_date = PStr (py ''2024-01-01''),
          shutdown_date = PStr (py ''2025-01-01''), replacement_models = PNone,
          deprecation_context = PStr [], url = PStr [],
          content_hash = PStr (py ''abc''),
          scraped_at = PStr (isoformat now0)\<rparr>
   \<and> length (py ''abc'') = 3
   \<and> from_dict fmt0 now0 [(py ''content_hash'', PStr (py ''XYZ!'')), (py ''scraped_at'', PStr (py ''t''))]
     = Inr \<lparr>provider = PStr [], model_id = PStr [], model_name = PStr [],
          announcement_date = PStr [], shutdown_date = PStr [], replacement_models = PNone,
          deprecation_context = PStr [], url = PStr [],
          content_hash = PStr (py ''XYZ!''), scraped_at = PStr (py ''t'')\<rparr>
   \<and> \<not> list_all is_lower_hex (py ''XYZ!'')"
proof -
  have "from_dict fmt0 now0 [(py ''content_hash'', PStr (py ''XYZ!'')), (py ''scraped_at'', PStr (py ''t''))]
     = Inr \<lparr>provider = PStr [], model_id = PStr [], model_name = PStr [],
          announcement_date = PStr [], shutdown_date = PStr [], replacement_models = PNone,
          deprecation_context = PStr [], url = PStr [],
          content_hash = PStr (py ''XYZ!''), scraped_at = PStr (py ''t'')\<rparr>"
    by (simp add: from_dict_post_init legacy_replacement_models_def dict_get_def
          dict_contains_def post_init_def py_def)
  moreover have "\<not> list_all is_lower_hex (py ''XYZ!'')"
    by (simp add: py_def is_lower_hex_def)
  ultimately show ?thesis
    using init_explicit_hash by (simp add: py_def)
qed

subsection \<open>Failure\<close>





subsection \<open>Colliding hash inputs\<close>

text \<open>
  C10. The derived hash sees the four identity fields only through the text
  \<open>provider|model_id|shutdown_date|announcement_date\<close>, so it does not determine them:
  the constructions with provider \<open>a|b\<close>, model \<open>c\<close> and with provider \<open>a\<close>, model
  \<open>b|c\<close>, the same two dates and no explicit hash, give records with the same
  \<open>content_hash\<close> which \<open>matches_previous\<close> tells apart.
\<close>

theorem C10_hash_collision:
  assumes "DeprecationItem_init fmt now (PStr (py ''a|b'')) (PStr (py ''c'')) n1
             (PStr ad) (PStr sd) o1 o2 o3 None o5 = Inr r1"
    and "DeprecationItem_init fmt' now' (PStr (py ''a'')) (PStr (py ''b|c'')) n2
             (PStr ad) (PStr sd) p1 p2 p3 None p5 = Inr r2"
  shows "content_hash r1 = content_hash r2 \<and> \<not> matches_previous r1 r2"
proof -
  note post1 = assms(1) [unfolded DeprecationItem_init_def]
  note post2 = assms(2) [unfolded DeprecationItem_init_def]
  have same: "py ''a|b'' @ py ''|'' @ py ''c'' @ py ''|'' @ sd @ py ''|'' @ ad
            = py ''a'' @ py ''|'' @ py ''b|c'' @ py ''|'' @ sd @ py ''|'' @ ad"
    by (simp add: py_def)
  from post_init_content_hash [OF post1] obtain bs1 where
    e1: "encode (py ''a|b'' @ py ''|'' @ py ''c'' @ py ''|'' @ sd @ py ''|'' @ ad) = Inr bs1"
    and h1: "content_hash r1 = PStr (take 16 (hexdigest (sha256 bs1)))"
    by (auto simp: unique_content_def py_format_def)
  from post_init_content_hash [OF post2] obtain bs2 where
    e2: "encode (py ''a'' @ py ''|'' @ py ''b|c'' @ py ''|'' @ sd @ py ''|'' @ ad) = Inr bs2"
    and h2: "content_hash r2 = PStr (take 16 (hexdigest (sha256 bs2)))"
    by (auto simp: unique_content_def py_format_def)
  from e1 e2 have "bs1 = bs2"
    by (simp only: same) simp
  with h1 h2 have eq: "content_hash r1 = content_hash r2"
    by simp
  have "provider r1 = PStr (py ''a|b'')" "provider r2 = PStr (py ''a'')"
    using post_init_fields(1) [OF post1] post_init_fields(1) [OF post2] by simp_all
  then have "\<not> matches_previous r1 r2"
    by (simp add: matches_previous_def py_def)
  with eq show ?thesis by simp
qed

theorem C10_hash_collision_witness:
  "DeprecationItem_init fmt0 now0 (PStr (py ''a|b'')) (PStr (py ''c'')) (PStr (py ''n''))
     (PStr (py ''2024-01-01'')) (PStr (py ''2025-01-01'')) None None None None None
   = Inr \<lparr>provider = PStr (py ''a|b''), model_id = PStr (py ''c''), model_name = PStr (py ''n''),
          announcement_date = PStr (py ''2024-01-01''), shutdown_date = PStr (py ''2025-01-01''),
          replacement_models = PNone, deprecation_context = PStr [], url = PStr [],
          content_hash = PStr (take 16 (hexdigest (sha256
                           (map of_char ''a|b|c|2025-01-01|2024-01-01'')))),
          scraped_at = PStr (isoformat now0)\<rparr>
   \<and> DeprecationItem_init fmt0 now0 (PStr (py ''a'')) (PStr (py ''b|c'')) (PStr (py ''n''))
     (PStr (py ''2024-01-01'')) (PStr (py ''2025-01-01'')) None None None None None
   = Inr \<lparr>provider = PStr (py ''a''), model_id = PStr (py ''b|c''), model_name = PStr (py ''n''),
          announcement_date = PStr (py ''2024-01-01''), shutdown_date = PStr (py ''2025-01-01''),
          replacement_models = PNone, deprecation_context = PStr [], url = PStr [],
          content_hash = PStr (take 16 (hexdigest (sha256
                           (map of_char ''a|b|c|2025-01-01|2024-01-01'')))),
          scraped_at = PStr (isoformat now0)\<rparr>
   \<and> \<not> matches_previous
       \<lparr>provider = PStr (py ''a|b''), model_id = PStr (py ''c''), model_name = PStr (py ''n''),
          announcement_date = PStr (py ''2024-01-01''), shutdown_date = PStr (py ''2025-01-01''),
          replacement_models = PNone, deprecation_context = PStr [], url = PStr [],
          content_hash = PStr (take 16 (hexdigest (sha256
                           (map of_char ''a|b|c|2025-01-01|2024-01-01'')))),
          scraped_at = PStr (isoformat now0)\<rparr>
       \<lparr>provider = PStr (py ''a''), model_id = PStr (py ''b|c''), model_name = PStr (py ''n''),
          announcement_date = PStr (py ''2024-01-01''), shutdown_date = PStr (py ''2025-01-01''),
          replacement_models = PNone, deprecation_context = PStr [], url = PStr [],
          content_hash = PStr (take 16 (hexdigest (sha256
                           (map of_char ''a|b|c|2025-01-01|2024-01-01'')))),
          scraped_at = PStr (isoformat now0)\<rparr>"
proof -
  have one: "DeprecationItem_init fmt0 now0 (PStr (py ''a|b'')) (PStr (py ''c'')) (PStr (py ''n''))
     (PStr (py ''2024-01-01'')) (PStr (py ''2025-01-01'')) None None None None None
   = Inr \<lparr>provider = PStr (py ''a|b''), model_id = PStr (py ''c''), model_name = PStr (py ''n''),
          announcement_date = PStr (py ''2024-01-01''), shutdown_date = PStr (py ''2025-01-01''),
          replacement_models = PNone, deprecation_context = PStr [], url = PStr [],
          content_hash = PStr (take 16 (hexdigest (sha256
                           (map of_char ''a|b|c|2025-01-01|2024-01-01'')))),
          scraped_at = PStr (isoformat now0)\<rparr>"
    by (simp add: DeprecationItem_init_def post_init_def unique_content_def py_format_def
          compute_hash_def py_def utf8_char_def)
  have two: "DeprecationItem_init fmt0 now0 (PStr (py ''a'')) (PStr (py ''b|c'')) (PStr (py ''n''))
     (PStr (py ''2024-01-01'')) (PStr (py ''2025-01-01'')) None None None None None
   = Inr \<lparr>provider = PStr (py ''a''), model_id = PStr (py ''b|c''), model_name = PStr (py ''n''),
          announcement_date = PStr (py ''2024-01-01''), shutdown_date = PStr (py ''2025-01-01''),
          replacement_models = PNone, deprecation_context = PStr [], url = PStr [],
          content_hash = PStr (take 16 (hexdigest (sha256
                           (map of_char ''a|b|c|2025-01-01|2024-01-01'')))),
          scraped_at = PStr (isoformat now0)\<rparr>"
    by (simp add: DeprecationItem_init_def post_init_def unique_content_def py_format_def
          compute_hash_def py_def utf8_char_def)
  from C10_hash_collision [OF one two] one two show ?thesis
    by simp
qed

end
